theory Spec2Isabelle
  imports
    Complex_Main
    "HOL-Library.Sublist"
    "HOL-Library.Char_ord"
    "HOL-Library.List_Lexorder"
    "HOL-Library.Multiset"
begin

section \<open>Python strings\<close>

text \<open>
  A Python \<open>str\<close> is modelled as a \<^typ>\<open>string\<close>, one \<^typ>\<open>char\<close> per code point;
  the code points that can be written are those below 256. \<open>len\<close> is \<^const>\<open>length\<close>.
\<close>

text \<open>\<open>str.isspace\<close> on one character, for the code points below 256.\<close>

definition isspace :: "char \<Rightarrow> bool" where
  "isspace c = (of_char c \<in> {9, 10, 11, 12, 13, 28, 29, 30, 31, 32, 133, 160 :: nat})"

text \<open>\<open>s.strip()\<close>: whitespace removed at both ends.\<close>

definition strip :: "string \<Rightarrow> string" where
  "strip s = rev (dropWhile isspace (rev (dropWhile isspace s)))"

text \<open>\<open>s.split(c)\<close> for a one-character separator: one more piece than separators.\<close>

fun split_on :: "char \<Rightarrow> string \<Rightarrow> string list" where
  "split_on c [] = [[]]"
| "split_on c (x # xs) =
     (if x = c then [] # split_on c xs
      else (case split_on c xs of
              [] \<Rightarrow> [[x]]
            | piece # pieces \<Rightarrow> (x # piece) # pieces))"

text \<open>\<open>s[:k]\<close>: a negative \<open>k\<close> counts from the end, and the slice never raises.\<close>

definition slice_to :: "string \<Rightarrow> int \<Rightarrow> string" where
  "slice_to s k =
     (let n = int (length s);
          j = (if k < 0 then max 0 (n + k) else min k n)
      in take (nat j) s)"


section \<open>Prompt truncation (generate\_images.py and generate\_videos.py)\<close>

text \<open>
  The loop of \<open>truncate_prompt\<close>: sentences are appended, each with its dot, while the
  result stays within \<open>max_length - 50\<close>; the first sentence that does not fit ends the loop.
\<close>

fun accumulate_sentences :: "string list \<Rightarrow> string \<Rightarrow> int \<Rightarrow> string" where
  "accumulate_sentences [] truncated max_length = truncated"
| "accumulate_sentences (sentence # rest) truncated max_length =
     (if int (length truncated) + int (length sentence) + 1 \<le> max_length - 50
      then accumulate_sentences rest (truncated @ sentence @ ''.'') max_length
      else truncated)"

definition truncate_prompt :: "string \<Rightarrow> int \<Rightarrow> string" where
  "truncate_prompt prompt max_length =
     (if int (length prompt) \<le> max_length then prompt
      else
        let sentences = split_on CHR ''.'' prompt;
            truncated = accumulate_sentences sentences [] max_length;
            truncated = (if truncated = [] \<or> length truncated < 50
                         then slice_to prompt (max_length - 3) @ ''...''
                         else truncated)
        in strip truncated)"



section \<open>Exceptions\<close>

text \<open>
  Every exception the tools raise or receive from a library is a value of one type. All of
  them are subclasses of Python's \<open>Exception\<close>, so an \<open>except Exception\<close> clause
  catches each of them. The constructors keep the data of the message, not its wording.
\<close>

datatype py_exc =
    RequestException
  | InsufficientCredits
  | InvalidParameters
  | RateLimited
  | TaskCreationFailed int
  | EmptyResponse
  | NoDataField
  | NoTaskId
  | FailedToCreateTask py_exc
  | GenerationFailed string string
  | NoResultUrls
  | TimeoutError int
  | TaskDidNotComplete int
  | JSONDecodeError
  | FailedToUpdateAirtable
  | FailedToDownload
  | FailedToUpload
  | NoImageFound
  | StoreError
  | TypeError


section \<open>The record store (Airtable table \<open>Scenes\<close>)\<close>

text \<open>
  One row of the table: its identifier and its fields. A field that the row does not have is
  \<open>None\<close>; an attachment field holds a list of attachments, each with its URL.
\<close>

datatype attachment = Attachment (url: string)

record airtable_record =
  rec_id :: string
  scene_name :: "string option"
  start_image_prompt :: "string option"
  video_prompt :: "string option"
  start_image :: "attachment list option"
  scene_video :: "attachment list option"

text \<open>\<open>'start_image' in fields and fields['start_image']\<close>, and the same for the video.\<close>

definition has_image :: "airtable_record \<Rightarrow> bool" where
  "has_image record = (case start_image record of None \<Rightarrow> False | Some v \<Rightarrow> v \<noteq> [])"

definition has_video :: "airtable_record \<Rightarrow> bool" where
  "has_video record = (case scene_video record of None \<Rightarrow> False | Some v \<Rightarrow> v \<noteq> [])"

text \<open>The filtering loop of \<open>get_scenes_from_airtable\<close> in generate\_videos.py.\<close>

fun select_ready :: "airtable_record list \<Rightarrow> airtable_record list \<Rightarrow> airtable_record list" where
  "select_ready [] scenes = scenes"
| "select_ready (record # rest) scenes =
     (if has_image record \<and> \<not> has_video record
      then select_ready rest (scenes @ [record])
      else select_ready rest scenes)"

text \<open>
  \<open>get_scenes_from_airtable\<close> of generate\_videos.py. The query \<open>table.all\<close> with the
  project's formula is the store's; its answer for a project name is the parameter
  \<open>table_all\<close>, an exception when the store cannot be reached.
\<close>

definition videos_get_scenes_from_airtable ::
  "(string \<Rightarrow> py_exc + airtable_record list) \<Rightarrow> string \<Rightarrow> py_exc + airtable_record list" where
  "videos_get_scenes_from_airtable table_all project =
     (case table_all project of
        Inl e \<Rightarrow> Inl e
      | Inr all_records \<Rightarrow>
          if all_records = [] then Inr [] else Inr (select_ready all_records []))"

text \<open>\<open>get_scenes_from_airtable\<close> of generate\_images.py returns every row of the project.\<close>

definition images_get_scenes_from_airtable ::
  "(string \<Rightarrow> py_exc + airtable_record list) \<Rightarrow> string \<Rightarrow> py_exc + airtable_record list" where
  "images_get_scenes_from_airtable table_all project = table_all project"

text \<open>\<open>get_image_url_from_record\<close>: the URL of the first attachment, or an exception.\<close>

definition get_image_url_from_record :: "airtable_record \<Rightarrow> py_exc + string" where
  "get_image_url_from_record record =
     (case start_image record of
        None \<Rightarrow> Inl NoImageFound
      | Some [] \<Rightarrow> Inl NoImageFound
      | Some (first # _) \<Rightarrow> Inr (url first))"


section \<open>Ordering the video files (combine\_all.py)\<close>

definition isdigit :: "char \<Rightarrow> bool" where
  "isdigit c = (48 \<le> (of_char c :: nat) \<and> (of_char c :: nat) \<le> 57)"

text \<open>\<open>str.lower\<close> on one character, for the code points below 256.\<close>

definition lower_char :: "char \<Rightarrow> char" where
  "lower_char c =
     (let n = (of_char c :: nat)
      in if (65 \<le> n \<and> n \<le> 90) \<or> (192 \<le> n \<and> n \<le> 214) \<or> (216 \<le> n \<and> n \<le> 222)
         then char_of (n + 32) else c)"

definition lower :: "string \<Rightarrow> string" where
  "lower s = map lower_char s"

text \<open>\<open>int\<close> of a string of decimal digits.\<close>

definition int_of_digits :: "string \<Rightarrow> nat" where
  "int_of_digits ds = foldl (\<lambda>acc d. 10 * acc + ((of_char d :: nat) - 48)) 0 ds"

text \<open>
  The pattern \<open>scene[_\s]*(\d+)\<close> with \<open>re.IGNORECASE\<close>, tried at the start of a string:
  the word, then every underscore and whitespace character, then the longest run of digits,
  which must not be empty. The value is the number of group 1. The two character classes
  are disjoint, so giving characters back never turns a failure into a match.
\<close>

definition match_scene_here :: "string \<Rightarrow> nat option" where
  "match_scene_here s =
     (if lower (take 5 s) = ''scene'' then
        let rest = dropWhile (\<lambda>c. c = CHR ''_'' \<or> isspace c) (drop 5 s);
            digits = takeWhile isdigit rest
        in if digits = [] then None else Some (int_of_digits digits)
      else None)"

text \<open>\<open>re.search\<close>: the leftmost position where the pattern matches.\<close>

fun search_scene :: "string \<Rightarrow> nat option" where
  "search_scene [] = match_scene_here []"
| "search_scene (c # cs) =
     (case match_scene_here (c # cs) of
        Some n \<Rightarrow> Some n
      | None \<Rightarrow> search_scene cs)"

text \<open>The sort key: the scene number when the name has one, otherwise the name itself.\<close>

datatype sort_key = IntKey nat | StrKey string

definition get_scene_number :: "string \<Rightarrow> sort_key" where
  "get_scene_number filename =
     (case search_scene filename of
        Some n \<Rightarrow> IntKey n
      | None \<Rightarrow> StrKey filename)"

definition is_int_key :: "sort_key \<Rightarrow> bool" where
  "is_int_key k = (case k of IntKey _ \<Rightarrow> True | StrKey _ \<Rightarrow> False)"

definition int_key :: "sort_key \<Rightarrow> nat" where
  "int_key k = (case k of IntKey n \<Rightarrow> n | StrKey _ \<Rightarrow> 0)"

definition str_key :: "sort_key \<Rightarrow> string" where
  "str_key k = (case k of IntKey _ \<Rightarrow> [] | StrKey s \<Rightarrow> s)"

text \<open>
  \<open>list.sort(key=...)\<close> on keys that are integers or strings. Python's sort is stable, and
  it compares keys with \<open><\<close>: integers by value, strings by code points, and an integer
  with a string raises \<open>TypeError\<close>. A sort that finishes has compared its way from every
  element to every other, so on a list with keys of both kinds it meets such a pair and
  raises. On keys of one kind the result is the stable sort, \<^const>\<open>sort_key\<close>.
\<close>

definition py_sort :: "('a \<Rightarrow> sort_key) \<Rightarrow> 'a list \<Rightarrow> py_exc + 'a list" where
  "py_sort key xs =
     (if list_all (\<lambda>x. is_int_key (key x)) xs then Inr (sort_key (\<lambda>x. int_key (key x)) xs)
      else if list_all (\<lambda>x. \<not> is_int_key (key x)) xs then Inr (sort_key (\<lambda>x. str_key (key x)) xs)
      else Inl TypeError)"

text \<open>
  \<open>find_video_files\<close>. The directory is given by the names that \<open>glob('*.mp4')\<close> finds in
  it, in the order the file system lists them, or \<open>None\<close> when it does not exist. An
  exception of the sort leaves the function.
\<close>

definition find_video_files :: "string list option \<Rightarrow> string option \<Rightarrow> py_exc + string list" where
  "find_video_files input_dir project_name =
     (case input_dir of
        None \<Rightarrow> Inr []
      | Some listing \<Rightarrow>
          let video_files =
                (case project_name of
                   None \<Rightarrow> listing
                 | Some p \<Rightarrow> if p = [] then listing
                            else filter (\<lambda>f. sublist (lower p) (lower f)) listing)
          in if video_files = [] then Inr []
             else py_sort get_scene_number video_files)"


section \<open>Prompt creation (create\_prompts.py)\<close>

text \<open>
  A scene of the analysis artifact. The duration is a YAML scalar of any type \<open>'d\<close>; an
  f-string renders it with \<open>str\<close>, the parameter \<open>str_of\<close> below.
\<close>

record 'd analysis_scene =
  scene_number :: int
  description :: string
  subject :: string
  environment :: string
  action :: string
  lighting :: string
  camera :: string
  duration :: 'd

record 'd video_analysis =
  total_scenes :: int
  analysis_scenes :: "'d analysis_scene list"

record 'd prompt_entry =
  pe_scene_number :: int
  pe_scene_description :: string
  pe_duration :: 'd
  pe_image_prompt :: string
  pe_video_prompt :: string

definition image_prompt_text :: "string \<Rightarrow> 'd analysis_scene \<Rightarrow> string" where
  "image_prompt_text subject_description scene =
     subject_description @ ''\<newline>\<newline>Setting: '' @ environment scene
     @ ''\<newline>Lighting: '' @ lighting scene
     @ ''\<newline>Camera: '' @ camera scene
     @ ''\<newline>\<newline>The subject is in this position/pose: ''
     @ hd (split_on CHR ''.'' (action scene)) @ ''.''
     @ ''\<newline>\<newline>Style: Photorealistic, high quality, professional photography''
     @ ''\<newline>Details: Sharp focus, natural colors, '' @ lower (lighting scene)"

definition video_prompt_text :: "('d \<Rightarrow> string) \<Rightarrow> string \<Rightarrow> 'd analysis_scene \<Rightarrow> string" where
  "video_prompt_text str_of subject_description scene =
     ''Camera Type: '' @ camera scene
     @ ''\<newline>\<newline>Main Movement: '' @ subject_description @ '' '' @ action scene
     @ ''\<newline>\<newline>Setting: '' @ environment scene
     @ ''\<newline>Lighting: '' @ lighting scene
     @ ''\<newline>\<newline>Motion details: '' @ action scene
     @ ''\<newline>Duration: '' @ str_of (duration scene) @ '' seconds''
     @ ''\<newline>\<newline>Style: Smooth, natural motion, high quality video, realistic physics''"

text \<open>The dictionary that \<open>create_prompts\<close> builds for one scene.\<close>

definition prompt_entry_of :: "('d \<Rightarrow> string) \<Rightarrow> string \<Rightarrow> 'd analysis_scene \<Rightarrow> 'd prompt_entry" where
  "prompt_entry_of str_of subject_description scene =
     \<lparr>pe_scene_number = scene_number scene,
      pe_scene_description = description scene,
      pe_duration = duration scene,
      pe_image_prompt = strip (image_prompt_text subject_description scene),
      pe_video_prompt = strip (video_prompt_text str_of subject_description scene)\<rparr>"

text \<open>The loop of \<open>create_prompts\<close>: one entry is appended for each scene.\<close>

fun create_prompts_loop ::
  "('d \<Rightarrow> string) \<Rightarrow> string \<Rightarrow> 'd analysis_scene list \<Rightarrow> 'd prompt_entry list \<Rightarrow> 'd prompt_entry list" where
  "create_prompts_loop str_of subject_description [] prompts = prompts"
| "create_prompts_loop str_of subject_description (scene # rest) prompts =
     create_prompts_loop str_of subject_description rest
       (prompts @ [prompt_entry_of str_of subject_description scene])"

definition create_prompts ::
  "('d \<Rightarrow> string) \<Rightarrow> 'd video_analysis \<Rightarrow> string \<Rightarrow> 'd prompt_entry list" where
  "create_prompts str_of analysis subject_description =
     create_prompts_loop str_of subject_description (analysis_scenes analysis) []"


section \<open>Polling a task (generate\_images.py and generate\_videos.py)\<close>














section \<open>Effects and outcomes of a stage\<close>

text \<open>
  What a run of a tool does to the world, in the order in which it does it: the calls to
  the generation provider, the reads and writes of the record store, the work handed to
  FFmpeg, the files written and deleted, the sleeps, the question put to the operator, and
  the lines of output that carry the batch: the header of a scene, the entry of a dry-run
  plan, an error and the summary. The other lines of output are decoration and are left out.
\<close>

datatype effect =
    StoreRead string
  | StoreCreate string
  | StoreUpdate string string string
  | UploadReference string
  | CreateTask string
  | PollTask string
  | DownloadVideo string string
  | AskApproval
  | Sleep nat
  | PrintScene nat nat string
  | PrintPlan nat string
  | PrintError py_exc
  | PrintSkipped
  | PrintSummary nat nat rat
  | CheckFfmpeg
  | PrintOnlyOneVideo string
  | PrintPlanFile nat string
  | WriteConcatFile string "string list"
  | FfmpegConcat string string
  | FfmpegAddMusic string string string
  | DeleteFiles "string list"

text \<open>A call to the generation provider (upload, task creation, polling, download).\<close>

definition is_remote_call :: "effect \<Rightarrow> bool" where
  "is_remote_call e =
     (case e of
        UploadReference _ \<Rightarrow> True
      | CreateTask _ \<Rightarrow> True
      | PollTask _ \<Rightarrow> True
      | DownloadVideo _ _ \<Rightarrow> True
      | _ \<Rightarrow> False)"

definition is_store_write :: "effect \<Rightarrow> bool" where
  "is_store_write e =
     (case e of
        StoreCreate _ \<Rightarrow> True
      | StoreUpdate _ _ _ \<Rightarrow> True
      | _ \<Rightarrow> False)"

text \<open>Work handed to FFmpeg that produces a video file, and the writing of any file.\<close>

definition is_mux_call :: "effect \<Rightarrow> bool" where
  "is_mux_call e =
     (case e of
        FfmpegConcat _ _ \<Rightarrow> True
      | FfmpegAddMusic _ _ _ \<Rightarrow> True
      | _ \<Rightarrow> False)"

definition is_file_write :: "effect \<Rightarrow> bool" where
  "is_file_write e =
     (case e of
        WriteConcatFile _ _ \<Rightarrow> True
      | FfmpegConcat _ _ \<Rightarrow> True
      | FfmpegAddMusic _ _ _ \<Rightarrow> True
      | DownloadVideo _ _ \<Rightarrow> True
      | _ \<Rightarrow> False)"

text \<open>
  How \<open>main\<close> ends: \<open>sys.exit\<close> with a code, a return (exit code 0), or an exception
  that nothing catches (a traceback and exit code 1).
\<close>

datatype outcome = Exited int | Returned | Uncaught py_exc

definition exit_code :: "outcome \<Rightarrow> int" where
  "exit_code out = (case out of Exited c \<Rightarrow> c | Returned \<Rightarrow> 0 | Uncaught _ \<Rightarrow> 1)"

definition is_scene_header :: "effect \<Rightarrow> bool" where
  "is_scene_header e = (case e of PrintScene _ _ _ \<Rightarrow> True | _ \<Rightarrow> False)"

text \<open>How the handling of one scene ends in the batch.\<close>

datatype scene_result = Succeeded | Failed | Skipped

text \<open>\<open>str\<close> of a natural number.\<close>

fun str_nat :: "nat \<Rightarrow> string" where
  "str_nat n =
     (if n < 10 then [char_of (48 + n)]
      else str_nat (n div 10) @ [char_of (48 + n mod 10)])"

declare str_nat.simps [simp del]


section \<open>Models and task creation\<close>

record model_config =
  model_name :: string
  cost :: rat
  max_prompt_length :: int

datatype image_model = ZImage | NanoBananaPro

text \<open>The table \<open>MODELS\<close> of generate\_images.py and the one entry of generate\_videos.py.\<close>

definition IMAGE_MODELS :: "image_model \<Rightarrow> model_config" where
  "IMAGE_MODELS m =
     (case m of
        ZImage \<Rightarrow> \<lparr>model_name = ''z-image'', cost = 4 / 1000, max_prompt_length = 1000\<rparr>
      | NanoBananaPro \<Rightarrow> \<lparr>model_name = ''nano-banana-pro'', cost = 9 / 100, max_prompt_length = 10000\<rparr>)"

definition SORA_2 :: model_config where
  "SORA_2 = \<lparr>model_name = ''sora-2-image-to-video'', cost = 1 / 2, max_prompt_length = 10000\<rparr>"

text \<open>
  The answer to the \<open>createTask\<close> request: the request raises, or it returns a status code
  and a body. The body is empty, or its \<open>data\<close> is missing or empty, or it has
  \<open>data\<close> with or without a \<open>taskId\<close>.
\<close>

datatype create_body = BodyEmpty | BodyWithoutData | BodyData "string option"

datatype create_response = CreateRequestException | CreateResponse int create_body

text \<open>The \<open>try\<close> block that both task creation functions share.\<close>

definition submit_task :: "create_response \<Rightarrow> py_exc + string" where
  "submit_task response =
     (case response of
        CreateRequestException \<Rightarrow> Inl RequestException
      | CreateResponse status_code body \<Rightarrow>
          if status_code = 402 then Inl (FailedToCreateTask InsufficientCredits)
          else if status_code = 422 then Inl (FailedToCreateTask InvalidParameters)
          else if status_code = 429 then Inl (FailedToCreateTask RateLimited)
          else if status_code \<noteq> 200 then Inl (FailedToCreateTask (TaskCreationFailed status_code))
          else (case body of
                  BodyEmpty \<Rightarrow> Inl (FailedToCreateTask EmptyResponse)
                | BodyWithoutData \<Rightarrow> Inl (FailedToCreateTask NoDataField)
                | BodyData None \<Rightarrow> Inl (FailedToCreateTask NoTaskId)
                | BodyData (Some task_id) \<Rightarrow>
                    if task_id = [] then Inl (FailedToCreateTask NoTaskId) else Inr task_id))"

text \<open>
  \<open>create_image_generation_task\<close> and \<open>create_video_generation_task\<close>: the prompt is
  truncated when it is over the model's limit, and the request is sent. Of the payload the
  prompt alone is kept. \<open>post\<close> is the provider's answer to this request.
\<close>

definition fit_prompt :: "model_config \<Rightarrow> string \<Rightarrow> string" where
  "fit_prompt model_config prompt =
     (if max_prompt_length model_config < int (length prompt)
      then truncate_prompt prompt (max_prompt_length model_config)
      else prompt)"

definition create_generation_task ::
  "(string \<Rightarrow> create_response) \<Rightarrow> string \<Rightarrow> model_config \<Rightarrow> (py_exc + string) \<times> effect list" where
  "create_generation_task post prompt model_config =
     (submit_task (post (fit_prompt model_config prompt)),
      [CreateTask (fit_prompt model_config prompt)])"


section \<open>The environment of a generation stage\<close>

text \<open>
  Everything a stage receives from outside: whether the three credentials are configured,
  the answers of the store, the operator's answer to the approval question, the image files
  found in \<open>inputs/\<close>, and for the \<open>i\<close>-th scene of the batch the provider's answer to
  the task creation, the result of \<open>poll_task_status\<close>, and whether the store update and
  the download succeed.
\<close>

record env =
  config_present :: bool
  table_all :: "string \<Rightarrow> py_exc + airtable_record list"
  table_create :: "string \<Rightarrow> py_exc + airtable_record"
  user_input :: string
  input_images :: "string list"
  upload_reference :: "string \<Rightarrow> py_exc + string"
  post_create_task :: "nat \<Rightarrow> string \<Rightarrow> create_response"
  poll_result :: "nat \<Rightarrow> string \<Rightarrow> py_exc + string list"
  update_ok :: "nat \<Rightarrow> string \<Rightarrow> string \<Rightarrow> bool"
  download_ok :: "nat \<Rightarrow> string \<Rightarrow> bool"

text \<open>The command line: the flags that every tool has, and those of each tool.\<close>

record common_args =
  dry_run :: bool

record generation_args = common_args +
  project_name :: string
  skip_approval :: bool
  test_mode :: bool

record images_args = generation_args +
  model :: image_model
  reference_image :: "string option"

record videos_args = generation_args +
  skip_download :: bool

text \<open>The approval question: anything but \<open>yes\<close> or \<open>y\<close> cancels.\<close>

definition approved :: "env \<Rightarrow> bool" where
  "approved env = (lower (strip (user_input env)) \<in> set [''yes'', ''y''])"

definition scene_label :: "airtable_record \<Rightarrow> nat \<Rightarrow> string" where
  "scene_label record i = (case scene_name record of Some s \<Rightarrow> s | None \<Rightarrow> ''Scene '' @ str_nat i)"


section \<open>The image stage (generate\_images.py)\<close>

text \<open>
  The \<open>try\<close> block of the loop of \<open>main\<close> for a scene with a prompt: create the task,
  poll it, write the first URL to the store. Any exception is caught and the scene fails.
\<close>

definition images_try_scene ::
  "env \<Rightarrow> model_config \<Rightarrow> nat \<Rightarrow> airtable_record \<Rightarrow> string \<Rightarrow> scene_result \<times> effect list" where
  "images_try_scene env model_config i record prompt =
     (case create_generation_task (post_create_task env i) prompt model_config of
        (Inl e, effects) \<Rightarrow> (Failed, effects @ [PrintError e])
      | (Inr task_id, effects) \<Rightarrow>
          (case poll_result env i task_id of
             Inl e \<Rightarrow> (Failed, effects @ [PollTask task_id, PrintError e])
           | Inr [] \<Rightarrow> (Failed, effects @ [PollTask task_id])
           | Inr (first_url # _) \<Rightarrow>
               if update_ok env i (rec_id record) first_url
               then (Succeeded,
                     effects @ [PollTask task_id, StoreUpdate (rec_id record) ''start_image'' first_url])
               else (Failed,
                     effects @ [PollTask task_id, StoreUpdate (rec_id record) ''start_image'' first_url,
                                PrintError FailedToUpdateAirtable])))"

text \<open>
  The body of the loop for the \<open>i\<close>-th of \<open>n\<close> scenes: the header, the scene without a
  prompt (failed, and \<open>continue\<close> passes over the delay), the \<open>try\<close> block, the delay
  before the next scene.
\<close>

definition images_handle_scene ::
  "env \<Rightarrow> model_config \<Rightarrow> nat \<Rightarrow> nat \<Rightarrow> airtable_record \<Rightarrow> scene_result \<times> effect list" where
  "images_handle_scene env model_config n i record =
     (let prompt = (case start_image_prompt record of Some p \<Rightarrow> p | None \<Rightarrow> []);
          header = [PrintScene i n (scene_label record i)]
      in if prompt = [] then (Failed, header)
         else
           (case images_try_scene env model_config i record prompt of
              (result, effects) \<Rightarrow>
                (result, header @ effects @ (if i < n then [Sleep 2] else []))))"

record images_batch =
  successful :: nat
  failed :: nat
  images_log :: "effect list"

text \<open>The loop \<open>for i, record in enumerate(scenes, 1)\<close> with its two counters.\<close>

fun images_loop ::
  "env \<Rightarrow> model_config \<Rightarrow> nat \<Rightarrow> nat \<Rightarrow> airtable_record list \<Rightarrow> images_batch \<Rightarrow> images_batch" where
  "images_loop env model_config n i [] b = b"
| "images_loop env model_config n i (record # rest) b =
     (case images_handle_scene env model_config n i record of
        (result, effects) \<Rightarrow>
          images_loop env model_config n (i + 1) rest
            (if result = Succeeded
             then b\<lparr>successful := successful b + 1, images_log := images_log b @ effects\<rparr>
             else b\<lparr>failed := failed b + 1, images_log := images_log b @ effects\<rparr>))"

text \<open>Loading the scenes: the test record in test mode, the rows of the project otherwise.\<close>

definition images_load_scenes ::
  "env \<Rightarrow> images_args \<Rightarrow> (outcome + airtable_record list) \<times> effect list" where
  "images_load_scenes env args =
     (if test_mode args then
        (case table_all env (''TEST-'' @ project_name args) of
           Inl e \<Rightarrow> (Inl (Uncaught e), [StoreRead (''TEST-'' @ project_name args)])
         | Inr existing \<Rightarrow>
             if existing \<noteq> [] then (Inr existing, [StoreRead (''TEST-'' @ project_name args)])
             else
               (case table_create env (''TEST-'' @ project_name args) of
                  Inl e \<Rightarrow>
                    (Inl (Uncaught e),
                     [StoreRead (''TEST-'' @ project_name args), StoreCreate (''TEST-'' @ project_name args)])
                | Inr test_record \<Rightarrow>
                    (Inr [test_record],
                     [StoreRead (''TEST-'' @ project_name args), StoreCreate (''TEST-'' @ project_name args)])))
      else
        (case images_get_scenes_from_airtable (table_all env) (project_name args) of
           Inl e \<Rightarrow> (Inl (Uncaught e), [StoreRead (project_name args)])
         | Inr scenes \<Rightarrow>
             if scenes = [] then (Inl (Exited 1), [StoreRead (project_name args)])
             else (Inr scenes, [StoreRead (project_name args)])))"

text \<open>The reference image: the one given, or the first image file of \<open>inputs/\<close>.\<close>

definition find_reference_image :: "env \<Rightarrow> images_args \<Rightarrow> string option" where
  "find_reference_image env args =
     (if (reference_image args = None \<or> reference_image args = Some []) \<and> \<not> test_mode args
      then (case input_images env of [] \<Rightarrow> reference_image args | first_file # _ \<Rightarrow> Some first_file)
      else reference_image args)"

text \<open>The upload of the reference image; a failure is reported and the run goes on.\<close>

definition images_upload_reference :: "env \<Rightarrow> images_args \<Rightarrow> effect list" where
  "images_upload_reference env args =
     (case find_reference_image env args of
        None \<Rightarrow> []
      | Some path \<Rightarrow>
          if path \<noteq> [] \<and> \<not> test_mode args then
            (case upload_reference env path of
               Inl e \<Rightarrow> [UploadReference path, PrintError e]
             | Inr _ \<Rightarrow> [UploadReference path])
          else [])"

text \<open>The dry-run plan: one entry for each scene, numbered from 1.\<close>

definition images_plan :: "airtable_record list \<Rightarrow> effect list" where
  "images_plan scenes = map (\<lambda>(i, record). PrintPlan i (rec_id record)) (enumerate 1 scenes)"

definition images_main :: "env \<Rightarrow> images_args \<Rightarrow> outcome \<times> effect list" where
  "images_main env args =
     (if \<not> config_present env then (Exited 1, [])
      else
        (case images_load_scenes env args of
           (Inl out, loaded) \<Rightarrow> (out, loaded)
         | (Inr scenes, loaded) \<Rightarrow>
             if \<not> dry_run args \<and> \<not> skip_approval args \<and> \<not> approved env
             then (Exited 0, loaded @ [AskApproval])
             else if dry_run args then (Returned, loaded @ images_plan scenes)
             else
               (let asked = (if skip_approval args then [] else [AskApproval]);
                    uploaded = images_upload_reference env args;
                    b = images_loop env (IMAGE_MODELS (model args)) (length scenes) 1 scenes
                          \<lparr>successful = 0, failed = 0, images_log = loaded @ asked @ uploaded\<rparr>
                in (Returned,
                    images_log b @
                    [PrintSummary (successful b) (failed b)
                       (of_nat (successful b) * cost (IMAGE_MODELS (model args)))]))))"


section \<open>The video stage (generate\_videos.py)\<close>

text \<open>The local file name of the \<open>i\<close>-th scene's video.\<close>

definition video_filename :: "nat \<Rightarrow> string \<Rightarrow> string" where
  "video_filename i scene_nm =
     ''scene_'' @ str_nat i @ ''_''
     @ slice_to (map (\<lambda>c. if c = CHR '' '' then CHR ''_'' else c) scene_nm) 30 @ ''.mp4''"

text \<open>
  The second \<open>try\<close> block of the loop: create the task, poll it, write the first URL to the
  store, download the video unless told not to, and then the delay before the next scene.
  Any exception is caught and the scene fails.
\<close>

definition videos_try_scene ::
  "env \<Rightarrow> videos_args \<Rightarrow> nat \<Rightarrow> nat \<Rightarrow> airtable_record \<Rightarrow> string \<Rightarrow> scene_result \<times> effect list" where
  "videos_try_scene env args n i record prompt =
     (case create_generation_task (post_create_task env i) prompt SORA_2 of
        (Inl e, effects) \<Rightarrow> (Failed, effects @ [PrintError e])
      | (Inr task_id, effects) \<Rightarrow>
          (case poll_result env i task_id of
             Inl e \<Rightarrow> (Failed, effects @ [PollTask task_id, PrintError e])
           | Inr [] \<Rightarrow> (Failed, effects @ [PollTask task_id, PrintError NoResultUrls])
           | Inr (video_url # _) \<Rightarrow>
               if \<not> update_ok env i (rec_id record) video_url
               then (Failed,
                     effects @ [PollTask task_id, StoreUpdate (rec_id record) ''scene_video'' video_url,
                                PrintError FailedToUpdateAirtable])
               else if skip_download args
               then (Succeeded,
                     effects @ [PollTask task_id, StoreUpdate (rec_id record) ''scene_video'' video_url]
                     @ (if i < n then [Sleep 5] else []))
               else if \<not> download_ok env i video_url
               then (Failed,
                     effects @ [PollTask task_id, StoreUpdate (rec_id record) ''scene_video'' video_url,
                                DownloadVideo video_url (video_filename i (scene_label record i)),
                                PrintError FailedToDownload])
               else (Succeeded,
                     effects @ [PollTask task_id, StoreUpdate (rec_id record) ''scene_video'' video_url,
                                DownloadVideo video_url (video_filename i (scene_label record i))]
                     @ (if i < n then [Sleep 5] else []))))"

text \<open>
  The body of the loop: the header; the first \<open>try\<close> block, where a record without an
  image fails and a record without a video prompt is passed over by \<open>continue\<close>; then the
  second \<open>try\<close> block.
\<close>

definition videos_handle_scene ::
  "env \<Rightarrow> videos_args \<Rightarrow> nat \<Rightarrow> nat \<Rightarrow> airtable_record \<Rightarrow> scene_result \<times> effect list" where
  "videos_handle_scene env args n i record =
     (let header = [PrintScene i n (scene_label record i)]
      in case get_image_url_from_record record of
           Inl e \<Rightarrow> (Failed, header @ [PrintError e])
         | Inr image_url \<Rightarrow>
             (let prompt = (case video_prompt record of Some p \<Rightarrow> p | None \<Rightarrow> [])
              in if prompt = [] then (Skipped, header @ [PrintSkipped])
                 else
                   (case videos_try_scene env args n i record prompt of
                      (result, effects) \<Rightarrow> (result, header @ effects))))"

record videos_batch =
  success_count :: nat
  fail_count :: nat
  actual_cost :: rat
  videos_log :: "effect list"

text \<open>The loop with its three variables; a scene that is passed over changes none.\<close>

fun videos_loop ::
  "env \<Rightarrow> videos_args \<Rightarrow> nat \<Rightarrow> nat \<Rightarrow> airtable_record list \<Rightarrow> videos_batch \<Rightarrow> videos_batch" where
  "videos_loop env args n i [] b = b"
| "videos_loop env args n i (record # rest) b =
     (case videos_handle_scene env args n i record of
        (result, effects) \<Rightarrow>
          videos_loop env args n (i + 1) rest
            (case result of
               Succeeded \<Rightarrow>
                 b\<lparr>success_count := success_count b + 1,
                   actual_cost := actual_cost b + cost SORA_2,
                   videos_log := videos_log b @ effects\<rparr>
             | Failed \<Rightarrow> b\<lparr>fail_count := fail_count b + 1, videos_log := videos_log b @ effects\<rparr>
             | Skipped \<Rightarrow> b\<lparr>videos_log := videos_log b @ effects\<rparr>))"

text \<open>
  The dry-run loop: one entry for each scene; an exception of
  \<open>get_image_url_from_record\<close> is not caught there.
\<close>

fun videos_plan :: "nat \<Rightarrow> airtable_record list \<Rightarrow> outcome \<times> effect list" where
  "videos_plan i [] = (Returned, [])"
| "videos_plan i (record # rest) =
     (case get_image_url_from_record record of
        Inl e \<Rightarrow> (Uncaught e, [])
      | Inr image_url \<Rightarrow>
          (case videos_plan (i + 1) rest of
             (out, printed) \<Rightarrow> (out, PrintPlan i (rec_id record) # printed)))"

definition videos_main :: "env \<Rightarrow> videos_args \<Rightarrow> outcome \<times> effect list" where
  "videos_main env args =
     (if \<not> config_present env then (Exited 1, [])
      else if test_mode args then (Exited 1, [])
      else
        (case videos_get_scenes_from_airtable (table_all env) (project_name args) of
           Inl e \<Rightarrow> (Uncaught e, [StoreRead (project_name args)])
         | Inr scenes \<Rightarrow>
             if scenes = [] then (Exited 1, [StoreRead (project_name args)])
             else if \<not> dry_run args \<and> \<not> skip_approval args \<and> \<not> approved env
             then (Exited 0, [StoreRead (project_name args), AskApproval])
             else if dry_run args then
               (case videos_plan 1 scenes of
                  (out, printed) \<Rightarrow> (out, StoreRead (project_name args) # printed))
             else
               (let asked = (if skip_approval args then [] else [AskApproval]);
                    b = videos_loop env args (length scenes) 1 scenes
                          \<lparr>success_count = 0, fail_count = 0, actual_cost = 0,
                           videos_log = StoreRead (project_name args) # asked\<rparr>
                in (Returned,
                    videos_log b @ [PrintSummary (success_count b) (fail_count b) (actual_cost b)]))))"


section \<open>The combine stage (combine\_all.py)\<close>

text \<open>
  What the combine stage receives from outside: whether FFmpeg answers, the \<open>*.mp4\<close>
  names of the input directory (\<open>None\<close> when there is no such directory), whether the
  list file can be written, and whether the two FFmpeg runs succeed.
\<close>

record combine_env =
  ffmpeg_installed :: bool
  mp4_files :: "string list option"
  concat_file_written :: bool
  combine_videos_ok :: bool
  add_background_music_ok :: bool

record combine_args = common_args +
  input_dir :: string
  output_path :: string
  project_filter :: "string option"
  music :: "string option"
  re_encode :: bool

text \<open>\<open>output_path.parent / f"temp_{output_path.name}"\<close>.\<close>

definition temp_output :: "string \<Rightarrow> string" where
  "temp_output path =
     rev (dropWhile (\<lambda>c. c \<noteq> CHR ''/'') (rev path)) @ ''temp_''
     @ rev (takeWhile (\<lambda>c. c \<noteq> CHR ''/'') (rev path))"

definition plan_files :: "string list \<Rightarrow> effect list" where
  "plan_files video_files = map (\<lambda>(i, video). PrintPlanFile i video) (enumerate 1 video_files)"

text \<open>The \<open>try\<close> block of \<open>main\<close>: the list file, the concatenation, the music, the cleanup.\<close>

definition combine_run :: "combine_env \<Rightarrow> combine_args \<Rightarrow> string list \<Rightarrow> outcome \<times> effect list" where
  "combine_run env args video_files =
     (let concat_file = input_dir args @ ''/videos_concat_list.txt''
      in if \<not> concat_file_written env
         then (Exited 1, [WriteConcatFile concat_file video_files, DeleteFiles [concat_file]])
         else
           (case music args of
              None \<Rightarrow>
                if combine_videos_ok env
                then (Returned,
                      [WriteConcatFile concat_file video_files,
                       FfmpegConcat concat_file (output_path args), DeleteFiles [concat_file]])
                else (Exited 1,
                      [WriteConcatFile concat_file video_files,
                       FfmpegConcat concat_file (output_path args), DeleteFiles [concat_file]])
            | Some music_file \<Rightarrow>
                if music_file = [] then
                  (if combine_videos_ok env
                   then (Returned,
                         [WriteConcatFile concat_file video_files,
                          FfmpegConcat concat_file (output_path args), DeleteFiles [concat_file]])
                   else (Exited 1,
                         [WriteConcatFile concat_file video_files,
                          FfmpegConcat concat_file (output_path args), DeleteFiles [concat_file]]))
                else if \<not> combine_videos_ok env
                then (Exited 1,
                      [WriteConcatFile concat_file video_files,
                       FfmpegConcat concat_file (temp_output (output_path args)),
                       DeleteFiles [concat_file, temp_output (output_path args)]])
                else if \<not> add_background_music_ok env
                then (Exited 1,
                      [WriteConcatFile concat_file video_files,
                       FfmpegConcat concat_file (temp_output (output_path args)),
                       FfmpegAddMusic (temp_output (output_path args)) music_file (output_path args),
                       DeleteFiles [concat_file, temp_output (output_path args)]])
                else (Returned,
                      [WriteConcatFile concat_file video_files,
                       FfmpegConcat concat_file (temp_output (output_path args)),
                       FfmpegAddMusic (temp_output (output_path args)) music_file (output_path args),
                       DeleteFiles [concat_file, temp_output (output_path args)]])))"

definition combine_main :: "combine_env \<Rightarrow> combine_args \<Rightarrow> outcome \<times> effect list" where
  "combine_main env args =
     (if \<not> ffmpeg_installed env then (Exited 1, [CheckFfmpeg])
      else
        (case find_video_files (mp4_files env) (project_filter args) of
           Inl e \<Rightarrow> (Uncaught e, [CheckFfmpeg])
         | Inr video_files \<Rightarrow>
             if video_files = [] then (Exited 1, [CheckFfmpeg])
             else if length video_files = 1
             then (Exited 0, [CheckFfmpeg, PrintOnlyOneVideo (hd video_files)])
             else if dry_run args then (Returned, CheckFfmpeg # plan_files video_files)
             else
               (case combine_run env args video_files of
                  (out, effects) \<Rightarrow> (out, CheckFfmpeg # effects))))"


section \<open>Example inputs\<close>

text \<open>
  A project with three rows that have an image and no video; the second has no video
  prompt. The provider rejects the first task of a batch for lack of credits (status 402)
  and accepts the others; every accepted task yields one URL; the store and the download
  work. The operator answers yes.
\<close>

definition scene_a :: airtable_record where
  "scene_a =
     \<lparr>rec_id = ''recA'', scene_name = Some ''Scene 1'',
      start_image_prompt = Some ''A robot on a beach'', video_prompt = Some ''The robot walks'',
      start_image = Some [Attachment ''https://img/1.png''], scene_video = None\<rparr>"

definition scene_b :: airtable_record where
  "scene_b =
     \<lparr>rec_id = ''recB'', scene_name = Some ''Scene 2'',
      start_image_prompt = Some ''A robot in a kitchen'', video_prompt = None,
      start_image = Some [Attachment ''https://img/2.png''], scene_video = None\<rparr>"

definition scene_c :: airtable_record where
  "scene_c =
     \<lparr>rec_id = ''recC'', scene_name = Some ''Scene 3'',
      start_image_prompt = Some ''A robot in a street'', video_prompt = Some ''The robot runs'',
      start_image = Some [Attachment ''https://img/3.png''], scene_video = None\<rparr>"

definition demo_env :: env where
  "demo_env =
     \<lparr>config_present = True,
      table_all = (\<lambda>project. if project = ''Demo'' then Inr [scene_a, scene_b, scene_c] else Inr []),
      table_create = (\<lambda>project.
         Inr \<lparr>rec_id = ''recT'', scene_name = Some ''TEST - Simple workflow test'',
              start_image_prompt = Some ''A young man smiling at the camera'',
              video_prompt = Some ''Test video prompt'', start_image = None, scene_video = None\<rparr>),
      user_input = ''yes'',
      input_images = [],
      upload_reference = (\<lambda>path. Inl FailedToUpload),
      post_create_task = (\<lambda>i prompt.
         if i = 1 then CreateResponse 402 BodyEmpty else CreateResponse 200 (BodyData (Some ''task''))),
      poll_result = (\<lambda>i task_id. Inr [''https://out/result'']),
      update_ok = (\<lambda>i record_id link. True),
      download_ok = (\<lambda>i link. True)\<rparr>"

definition demo_images_args :: images_args where
  "demo_images_args =
     \<lparr>dry_run = False, project_name = ''Demo'', skip_approval = True, test_mode = False,
      model = ZImage, reference_image = None\<rparr>"

definition demo_videos_args :: videos_args where
  "demo_videos_args =
     \<lparr>dry_run = False, project_name = ''Demo'', skip_approval = True, test_mode = False,
      skip_download = True\<rparr>"

definition demo_combine_env :: combine_env where
  "demo_combine_env =
     \<lparr>ffmpeg_installed = True, mp4_files = Some [''scene_2_x.mp4'', ''scene_1_z.mp4''],
      concat_file_written = True, combine_videos_ok = True, add_background_music_ok = True\<rparr>"

definition demo_combine_args :: combine_args where
  "demo_combine_args =
     \<lparr>dry_run = True, input_dir = ''outputs'', output_path = ''outputs/final_video.mp4'',
      project_filter = None, music = None, re_encode = False\<rparr>"


section \<open>Properties of prompt truncation\<close>

lemma length_strip_le: "length (strip s) \<le> length s"
proof -
  have "length (dropWhile isspace (rev (dropWhile isspace s))) \<le> length (rev (dropWhile isspace s))"
    by (rule length_dropWhile_le)
  also have "\<dots> \<le> length s"
    by (simp add: length_dropWhile_le)
  finally show ?thesis
    by (simp add: strip_def)
qed

lemma accumulate_sentences_bound:
  "truncated = [] \<or> int (length truncated) \<le> max_length - 50 \<Longrightarrow>
   accumulate_sentences sentences truncated max_length = [] \<or>
   int (length (accumulate_sentences sentences truncated max_length)) \<le> max_length - 50"
proof (induction sentences arbitrary: truncated)
  case Nil
  then show ?case by simp
next
  case (Cons sentence rest)
  show ?case
  proof (cases "int (length truncated) + int (length sentence) + 1 \<le> max_length - 50")
    case True
    have "int (length (truncated @ sentence @ ''.'')) \<le> max_length - 50"
      using True by simp
    then show ?thesis
      using Cons.IH [of "truncated @ sentence @ ''.''"] True by simp
  next
    case False
    then show ?thesis
      using Cons.prems by simp
  qed
qed

lemma length_hard_truncation:
  assumes "3 \<le> max_length" and "max_length < int (length prompt)"
  shows "int (length (slice_to prompt (max_length - 3) @ ''...'')) = max_length"
  using assms by (simp add: slice_to_def Let_def min_def)

lemma truncate_prompt_short:
  "int (length prompt) \<le> max_length \<Longrightarrow> truncate_prompt prompt max_length = prompt"
  by (simp add: truncate_prompt_def)

lemma truncate_prompt_long:
  assumes "3 \<le> max_length" and "max_length < int (length prompt)"
  shows "int (length (truncate_prompt prompt max_length)) \<le> max_length"
proof -
  let ?acc = "accumulate_sentences (split_on CHR ''.'' prompt) [] max_length"
  let ?hard = "slice_to prompt (max_length - 3) @ ''...''"
  show ?thesis
  proof (cases "?acc = [] \<or> length ?acc < 50")
    case True
    then have "truncate_prompt prompt max_length = strip ?hard"
      using assms(2) by (simp add: truncate_prompt_def Let_def)
    moreover have "int (length (strip ?hard)) \<le> int (length ?hard)"
      using length_strip_le [of ?hard] by linarith
    ultimately show ?thesis
      using length_hard_truncation [OF assms] by simp
  next
    case False
    then have eq: "truncate_prompt prompt max_length = strip ?acc"
      using assms(2) by (simp add: truncate_prompt_def Let_def)
    have "?acc = [] \<or> int (length ?acc) \<le> max_length - 50"
      by (rule accumulate_sentences_bound) simp
    with False have "int (length ?acc) \<le> max_length"
      by linarith
    moreover have "int (length (strip ?acc)) \<le> int (length ?acc)"
      using length_strip_le [of ?acc] by linarith
    ultimately show ?thesis
      using eq by simp
  qed
qed

text \<open>
  For any limit: a prompt within the limit is returned unchanged. For a limit of at least 3,
  the room that the ellipsis takes: a longer prompt is cut to at most the limit, and
  truncating twice is the same as truncating once. The limit of every model is at least 3.
\<close>

lemma truncate_prompt_general:
  "(int (length prompt) \<le> max_length \<longrightarrow> truncate_prompt prompt max_length = prompt) \<and>
   (3 \<le> max_length \<longrightarrow> max_length < int (length prompt) \<longrightarrow>
      int (length (truncate_prompt prompt max_length)) \<le> max_length) \<and>
   (3 \<le> max_length \<longrightarrow>
      truncate_prompt (truncate_prompt prompt max_length) max_length =
      truncate_prompt prompt max_length) \<and>
   3 \<le> max_prompt_length (IMAGE_MODELS m) \<and> 3 \<le> max_prompt_length SORA_2"
proof (intro conjI impI)
  show "3 \<le> max_prompt_length (IMAGE_MODELS m)"
    by (cases m) (simp_all add: IMAGE_MODELS_def)
  show "3 \<le> max_prompt_length SORA_2"
    by (simp add: SORA_2_def)
  show "truncate_prompt prompt max_length = prompt" if "int (length prompt) \<le> max_length"
    using that by (rule truncate_prompt_short)
  show "int (length (truncate_prompt prompt max_length)) \<le> max_length"
    if "3 \<le> max_length" "max_length < int (length prompt)"
    using that by (rule truncate_prompt_long)
  show "truncate_prompt (truncate_prompt prompt max_length) max_length =
        truncate_prompt prompt max_length" if "3 \<le> max_length"
  proof (cases "int (length prompt) \<le> max_length")
    case True
    then show ?thesis by (simp add: truncate_prompt_short)
  next
    case False
    then have "int (length (truncate_prompt prompt max_length)) \<le> max_length"
      using that truncate_prompt_long [of max_length prompt] by simp
    then show ?thesis by (rule truncate_prompt_short)
  qed
qed


text \<open>
  Claim C3. For every prompt and for the limit of every model (the image models of
  \<open>MODELS\<close> in generate\_images.py and the video model of generate\_videos.py): a prompt
  longer than the limit is truncated to at most the limit, a prompt within the limit is
  returned unchanged, and truncating the result again changes nothing.
\<close>

theorem truncate_prompt_within_model_limit:
  "(limit = max_prompt_length (IMAGE_MODELS m) \<or> limit = max_prompt_length SORA_2) \<longrightarrow>
     (limit < int (length prompt) \<longrightarrow> int (length (truncate_prompt prompt limit)) \<le> limit) \<and>
     (int (length prompt) \<le> limit \<longrightarrow> truncate_prompt prompt limit = prompt) \<and>
     truncate_prompt (truncate_prompt prompt limit) limit = truncate_prompt prompt limit"
proof
  assume "limit = max_prompt_length (IMAGE_MODELS m) \<or> limit = max_prompt_length SORA_2"
  then have "3 \<le> limit"
    using truncate_prompt_general [of prompt limit m] by auto
  then show "(limit < int (length prompt) \<longrightarrow> int (length (truncate_prompt prompt limit)) \<le> limit) \<and>
     (int (length prompt) \<le> limit \<longrightarrow> truncate_prompt prompt limit = prompt) \<and>
     truncate_prompt (truncate_prompt prompt limit) limit = truncate_prompt prompt limit"
    using truncate_prompt_general [of prompt limit m] by blast
qed

theorem truncate_prompt_within_model_limit_witness:
  "(1000 :: int) = max_prompt_length (IMAGE_MODELS ZImage) \<and>
   1000 < int (length (replicate 700 CHR ''a'' @ ''.'' @ replicate 500 CHR ''b'')) \<and>
   int (length (truncate_prompt (replicate 700 CHR ''a'' @ ''.'' @ replicate 500 CHR ''b'') 1000)) \<le> 1000 \<and>
   int (length ''A red car.'') \<le> 1000 \<and> truncate_prompt ''A red car.'' 1000 = ''A red car.''"
proof -
  have limit: "(1000 :: int) = max_prompt_length (IMAGE_MODELS ZImage)"
    by (simp add: IMAGE_MODELS_def)
  have long: "1000 < int (length (replicate 700 CHR ''a'' @ ''.'' @ replicate 500 CHR ''b''))"
    and short: "int (length ''A red car.'') \<le> 1000"
    by simp_all
  show ?thesis
    using limit long short
      truncate_prompt_within_model_limit
        [of 1000 ZImage "replicate 700 CHR ''a'' @ ''.'' @ replicate 500 CHR ''b''"]
      truncate_prompt_within_model_limit [of 1000 ZImage "''A red car.''"]
    by blast
qed

text \<open>
  Below 3 the bound has no room for the ellipsis: with the limit 2 the four characters
  \<open>abcd\<close> become the six characters \<open>abc...\<close>. No model has such a limit.
\<close>

lemma truncate_prompt_below_three:
  "2 < int (length ''abcd'') \<and> \<not> int (length (truncate_prompt ''abcd'' 2)) \<le> 2"
  by (simp add: truncate_prompt_def slice_to_def strip_def isspace_def Let_def)


section \<open>Properties of the video stage's selection\<close>

lemma select_ready_filter:
  "select_ready all_records acc = acc @ filter (\<lambda>r. has_image r \<and> \<not> has_video r) all_records"
  by (induction all_records arbitrary: acc) auto

lemma has_image_iff: "has_image r \<longleftrightarrow> (\<exists>first more. start_image r = Some (first # more))"
  by (auto simp: has_image_def neq_Nil_conv split: option.splits)

lemma has_video_iff: "\<not> has_video r \<longleftrightarrow> (scene_video r = None \<or> scene_video r = Some [])"
  by (auto simp: has_video_def split: option.splits)

text \<open>
  Claim C1. Of the rows that the store returns for the project, the video stage keeps those
  with a non-empty \<open>start_image\<close> and without a \<open>scene_video\<close> (the field is absent or
  empty), in the store's order, and no other row.
\<close>

theorem video_stage_selects_exactly_ready:
  assumes "query project = Inr all_records"
  shows "videos_get_scenes_from_airtable query project =
           Inr (filter (\<lambda>r. (\<exists>first more. start_image r = Some (first # more)) \<and>
                             (scene_video r = None \<or> scene_video r = Some [])) all_records)"
proof -
  have "videos_get_scenes_from_airtable query project =
          Inr (filter (\<lambda>r. has_image r \<and> \<not> has_video r) all_records)"
    using assms by (simp add: videos_get_scenes_from_airtable_def select_ready_filter)
  then show ?thesis
    by (simp only: has_image_iff has_video_iff)
qed

theorem video_stage_selects_exactly_ready_witness:
  "videos_get_scenes_from_airtable
     (\<lambda>p. Inr [\<lparr>rec_id = ''recA'', scene_name = Some ''Scene 1'', start_image_prompt = Some ''a'',
                   video_prompt = Some ''b'', start_image = Some [Attachment ''http://i/1.png''],
                   scene_video = None\<rparr>,
                 \<lparr>rec_id = ''recB'', scene_name = Some ''Scene 2'', start_image_prompt = Some ''a'',
                   video_prompt = Some ''b'', start_image = Some [Attachment ''http://i/2.png''],
                   scene_video = Some [Attachment ''http://v/2.mp4'']\<rparr>,
                 \<lparr>rec_id = ''recC'', scene_name = Some ''Scene 3'', start_image_prompt = Some ''a'',
                   video_prompt = Some ''b'', start_image = None, scene_video = None\<rparr>,
                 \<lparr>rec_id = ''recD'', scene_name = None, start_image_prompt = None,
                   video_prompt = None, start_image = Some [Attachment ''http://i/4.png''],
                   scene_video = Some []\<rparr>])
     ''Demo'' =
   Inr [\<lparr>rec_id = ''recA'', scene_name = Some ''Scene 1'', start_image_prompt = Some ''a'',
          video_prompt = Some ''b'', start_image = Some [Attachment ''http://i/1.png''],
          scene_video = None\<rparr>,
        \<lparr>rec_id = ''recD'', scene_name = None, start_image_prompt = None,
          video_prompt = None, start_image = Some [Attachment ''http://i/4.png''],
          scene_video = Some []\<rparr>]"
  by (subst video_stage_selects_exactly_ready [OF refl]) simp


section \<open>Properties of the file ordering\<close>

lemma is_int_key_get_scene_number:
  "is_int_key (get_scene_number f) \<longleftrightarrow> (\<exists>n. get_scene_number f = IntKey n)"
  by (cases "get_scene_number f") (simp_all add: is_int_key_def)

lemma py_sort_int_keys:
  assumes "\<forall>x\<in>set xs. \<exists>n. key x = IntKey n"
  shows "py_sort key xs = Inr (sort_key (\<lambda>x. int_key (key x)) xs)"
proof -
  have "list_all (\<lambda>x. is_int_key (key x)) xs"
    using assms by (auto simp: list_all_iff is_int_key_def)
  then show ?thesis
    by (simp add: py_sort_def)
qed

lemma py_sort_mixed_keys:
  assumes "a \<in> set xs" and "is_int_key (key a)" and "b \<in> set xs" and "\<not> is_int_key (key b)"
  shows "py_sort key xs = Inl TypeError"
  using assms by (auto simp: py_sort_def list_all_iff)

lemma find_video_files_unfiltered:
  "find_video_files (Some listing) None =
     (if listing = [] then Inr [] else py_sort get_scene_number listing)"
  by (simp add: find_video_files_def)

lemma example_keys:
  "get_scene_number ''scene_2_x.mp4'' = IntKey 2"
  "get_scene_number ''scene_10_y.mp4'' = IntKey 10"
  "get_scene_number ''scene_1_z.mp4'' = IntKey 1"
  by code_simp+

text \<open>
  Claim C5. When every file name has a scene number, the files are ordered by that number as
  a number: the result is a rearrangement of the listing, its scene numbers ascend, and
  files with the same number keep the order of the listing. The three files of the
  specification come out as \<open>scene_1_z\<close>, \<open>scene_2_x\<close>, \<open>scene_10_y\<close>.
\<close>

theorem files_ordered_by_scene_number:
  "find_video_files (Some [''scene_2_x.mp4'', ''scene_10_y.mp4'', ''scene_1_z.mp4'']) None =
     Inr [''scene_1_z.mp4'', ''scene_2_x.mp4'', ''scene_10_y.mp4''] \<and>
   ((\<forall>f\<in>set listing. \<exists>n. get_scene_number f = IntKey n) \<longrightarrow>
      (\<exists>ordered. find_video_files (Some listing) None = Inr ordered \<and>
         mset ordered = mset listing \<and>
         sorted (map (\<lambda>f. int_key (get_scene_number f)) ordered) \<and>
         (\<forall>k. filter (\<lambda>f. int_key (get_scene_number f) = k) ordered =
              filter (\<lambda>f. int_key (get_scene_number f) = k) listing)))"
proof (intro conjI impI)
  show "find_video_files (Some [''scene_2_x.mp4'', ''scene_10_y.mp4'', ''scene_1_z.mp4'']) None =
     Inr [''scene_1_z.mp4'', ''scene_2_x.mp4'', ''scene_10_y.mp4'']"
    by (simp add: find_video_files_unfiltered py_sort_def example_keys is_int_key_def int_key_def)
next
  assume all_int: "\<forall>f\<in>set listing. \<exists>n. get_scene_number f = IntKey n"
  let ?num = "\<lambda>f. int_key (get_scene_number f)"
  have found: "find_video_files (Some listing) None = Inr (sort_key ?num listing)"
    using py_sort_int_keys [OF all_int] by (cases listing) (simp_all add: find_video_files_unfiltered)
  have "\<forall>k. filter (\<lambda>f. ?num f = k) (sort_key ?num listing) = filter (\<lambda>f. ?num f = k) listing"
    by (simp add: sort_key_stable)
  then show "\<exists>ordered. find_video_files (Some listing) None = Inr ordered \<and>
         mset ordered = mset listing \<and> sorted (map ?num ordered) \<and>
         (\<forall>k. filter (\<lambda>f. ?num f = k) ordered = filter (\<lambda>f. ?num f = k) listing)"
    using found by simp
qed

theorem files_ordered_by_scene_number_witness:
  "get_scene_number ''Scene 3 take.mp4'' = IntKey 3 \<and> get_scene_number ''scene_03_b.mp4'' = IntKey 3 \<and>
   get_scene_number ''scene12.mp4'' = IntKey 12 \<and> get_scene_number ''SCENE_2.mp4'' = IntKey 2 \<and>
   (\<exists>ordered. find_video_files (Some [''Scene 3 take.mp4'', ''scene12.mp4'', ''scene_03_b.mp4'', ''SCENE_2.mp4'']) None = Inr ordered \<and>
      mset ordered = mset [''Scene 3 take.mp4'', ''scene12.mp4'', ''scene_03_b.mp4'', ''SCENE_2.mp4''] \<and>
      sorted (map (\<lambda>f. int_key (get_scene_number f)) ordered))"
proof -
  have keys: "get_scene_number ''Scene 3 take.mp4'' = IntKey 3" "get_scene_number ''scene_03_b.mp4'' = IntKey 3"
    "get_scene_number ''scene12.mp4'' = IntKey 12" "get_scene_number ''SCENE_2.mp4'' = IntKey 2"
    by code_simp+
  let ?listing = "[''Scene 3 take.mp4'', ''scene12.mp4'', ''scene_03_b.mp4'', ''SCENE_2.mp4'']"
  have "\<forall>f\<in>set ?listing. \<exists>n. get_scene_number f = IntKey n"
    by (simp add: keys)
  then have "\<exists>ordered. find_video_files (Some ?listing) None = Inr ordered \<and>
      mset ordered = mset ?listing \<and>
      sorted (map (\<lambda>f. int_key (get_scene_number f)) ordered)"
    using files_ordered_by_scene_number [of ?listing] by blast
  with keys show ?thesis
    by blast
qed

lemma mixed_keys_raise:
  assumes "a \<in> set listing" and "get_scene_number a = IntKey n"
    and "b \<in> set listing" and "get_scene_number b = StrKey b"
  shows "find_video_files (Some listing) None = Inl TypeError"
proof -
  have "listing \<noteq> []" using assms(1) by auto
  moreover have "py_sort get_scene_number listing = Inl TypeError"
    using assms by (intro py_sort_mixed_keys [of a _ _ b]) (simp_all add: is_int_key_def)
  ultimately show ?thesis by (simp add: find_video_files_unfiltered)
qed

text \<open>
  Claim C6 asks that names without a scene number come after the numbered ones. On a
  listing with both kinds of name the sort compares an integer key with a string key and
  raises \<open>TypeError\<close>; no order is produced.
\<close>

theorem mixed_names_raise_type_error:
  "find_video_files (Some [''scene_1_a.mp4'', ''intro.mp4'']) None = Inl TypeError"
proof -
  have "get_scene_number ''scene_1_a.mp4'' = IntKey 1" "get_scene_number ''intro.mp4'' = StrKey ''intro.mp4''"
    by code_simp+
  then show ?thesis
    by (intro mixed_keys_raise [of "''scene_1_a.mp4''" _ 1 "''intro.mp4''"]) simp_all
qed


section \<open>Properties of prompt creation\<close>

lemma dropWhile_stops_at:
  "\<not> P c \<Longrightarrow> \<exists>pre. dropWhile P (p @ c # rest) = pre @ c # rest"
proof (induction p)
  case Nil
  then show ?case by simp
next
  case (Cons x p)
  then obtain pre where "dropWhile P (p @ c # rest) = pre @ c # rest"
    by blast
  then show ?case
    by (cases "P x") (auto intro: exI [of _ "x # p"])
qed

lemma strip_keeps_inner:
  assumes "\<not> isspace c" and "\<not> isspace d"
  shows "\<exists>pre post. strip (p @ c # m @ d # q) = pre @ c # m @ d # post"
proof -
  obtain pre where pre: "dropWhile isspace (p @ c # m @ d # q) = pre @ c # m @ d # q"
    using dropWhile_stops_at [of isspace c p "m @ d # q"] assms(1) by blast
  have "rev (pre @ c # m @ d # q) = rev q @ d # rev (pre @ c # m)"
    by simp
  moreover obtain kcab where "dropWhile isspace (rev q @ d # rev (pre @ c # m)) = kcab @ d # rev (pre @ c # m)"
    using dropWhile_stops_at [of isspace d "rev q" "rev (pre @ c # m)"] assms(2) by blast
  ultimately have "strip (p @ c # m @ d # q) = rev (kcab @ d # rev (pre @ c # m))"
    using pre by (simp add: strip_def)
  then have "strip (p @ c # m @ d # q) = pre @ c # m @ d # rev kcab"
    by simp
  then show ?thesis by blast
qed

lemma sublist_strip_inner:
  assumes "\<not> isspace c" and "\<not> isspace d" and "s = p @ c # (ps @ x @ ss) @ d # q"
  shows "sublist x (strip s)"
proof -
  obtain pre post where "strip s = pre @ c # (ps @ x @ ss) @ d # post"
    using strip_keeps_inner [OF assms(1,2)] assms(3) by blast
  then have "strip s = (pre @ c # ps) @ x @ (ss @ d # post)"
    by simp
  then show ?thesis
    unfolding sublist_def by blast
qed

lemma not_isspace_letters: "\<not> isspace CHR ''S''" "\<not> isspace CHR ''T''" "\<not> isspace CHR ''C''" "\<not> isspace CHR ''M''"
  by (simp_all add: isspace_def)

lemma image_prompt_embeds:
  "sublist (environment scene) (strip (image_prompt_text subject_description scene))"
  "sublist (lighting scene) (strip (image_prompt_text subject_description scene))"
  "sublist (camera scene) (strip (image_prompt_text subject_description scene))"
proof -
  let ?text = "image_prompt_text subject_description scene"
  let ?q = "''he subject is in this position/pose: ''
     @ hd (split_on CHR ''.'' (action scene)) @ ''.''
     @ ''\<newline>\<newline>Style: Photorealistic, high quality, professional photography''
     @ ''\<newline>Details: Sharp focus, natural colors, '' @ lower (lighting scene)"
  let ?p = "subject_description @ ''\<newline>\<newline>''"
  have "?text = ?p @ CHR ''S'' # (''etting: '' @ environment scene @
          (''\<newline>Lighting: '' @ lighting scene @ ''\<newline>Camera: '' @ camera scene @ ''\<newline>\<newline>'')) @ CHR ''T'' # ?q"
    by (simp add: image_prompt_text_def)
  then show "sublist (environment scene) (strip ?text)"
    by (rule sublist_strip_inner [OF not_isspace_letters(1,2)])
  have "?text = ?p @ CHR ''S'' # ((''etting: '' @ environment scene @ ''\<newline>Lighting: '') @ lighting scene @
          (''\<newline>Camera: '' @ camera scene @ ''\<newline>\<newline>'')) @ CHR ''T'' # ?q"
    by (simp add: image_prompt_text_def)
  then show "sublist (lighting scene) (strip ?text)"
    by (rule sublist_strip_inner [OF not_isspace_letters(1,2)])
  have "?text = ?p @ CHR ''S'' # ((''etting: '' @ environment scene @ ''\<newline>Lighting: '' @ lighting scene @
          ''\<newline>Camera: '') @ camera scene @ ''\<newline>\<newline>'') @ CHR ''T'' # ?q"
    by (simp add: image_prompt_text_def)
  then show "sublist (camera scene) (strip ?text)"
    by (rule sublist_strip_inner [OF not_isspace_letters(1,2)])
qed

lemma video_prompt_embeds:
  "sublist (environment scene) (strip (video_prompt_text str_of subject_description scene))"
  "sublist (lighting scene) (strip (video_prompt_text str_of subject_description scene))"
  "sublist (camera scene) (strip (video_prompt_text str_of subject_description scene))"
proof -
  let ?text = "video_prompt_text str_of subject_description scene"
  let ?q = "''otion details: '' @ action scene
     @ ''\<newline>Duration: '' @ str_of (duration scene) @ '' seconds''
     @ ''\<newline>\<newline>Style: Smooth, natural motion, high quality video, realistic physics''"
  let ?mid = "''\<newline>\<newline>Main Movement: '' @ subject_description @ '' '' @ action scene @ ''\<newline>\<newline>Setting: ''"
  have "?text = [] @ CHR ''C'' # ((''amera Type: '' @ camera scene @ ?mid) @ environment scene @
          (''\<newline>Lighting: '' @ lighting scene @ ''\<newline>\<newline>'')) @ CHR ''M'' # ?q"
    by (simp add: video_prompt_text_def)
  then show "sublist (environment scene) (strip ?text)"
    by (rule sublist_strip_inner [OF not_isspace_letters(3,4)])
  have "?text = [] @ CHR ''C'' # ((''amera Type: '' @ camera scene @ ?mid @ environment scene @
          ''\<newline>Lighting: '') @ lighting scene @ ''\<newline>\<newline>'') @ CHR ''M'' # ?q"
    by (simp add: video_prompt_text_def)
  then show "sublist (lighting scene) (strip ?text)"
    by (rule sublist_strip_inner [OF not_isspace_letters(3,4)])
  have "?text = [] @ CHR ''C'' # (''amera Type: '' @ camera scene @ (?mid @ environment scene @
          ''\<newline>Lighting: '' @ lighting scene @ ''\<newline>\<newline>'')) @ CHR ''M'' # ?q"
    by (simp add: video_prompt_text_def)
  then show "sublist (camera scene) (strip ?text)"
    by (rule sublist_strip_inner [OF not_isspace_letters(3,4)])
qed

lemma create_prompts_loop_map:
  "create_prompts_loop str_of subject_description scene_list prompts =
     prompts @ map (prompt_entry_of str_of subject_description) scene_list"
  by (induction scene_list arbitrary: prompts) simp_all

lemma create_prompts_map:
  "create_prompts str_of analysis subject_description =
     map (prompt_entry_of str_of subject_description) (analysis_scenes analysis)"
  by (simp add: create_prompts_def create_prompts_loop_map)

text \<open>
  Claim C9. The prompt stage returns one entry per scene of the analysis, in the order of
  the scenes; the entry at each position carries that scene's number, and its image prompt
  and its video prompt each contain the scene's environment, lighting and camera texts
  unchanged.
\<close>

theorem one_prompt_pair_per_scene:
  "length (create_prompts str_of analysis subject_description) = length (analysis_scenes analysis) \<and>
   (\<forall>i < length (analysis_scenes analysis).
      pe_scene_number (create_prompts str_of analysis subject_description ! i) =
        scene_number (analysis_scenes analysis ! i) \<and>
      sublist (environment (analysis_scenes analysis ! i))
        (pe_image_prompt (create_prompts str_of analysis subject_description ! i)) \<and>
      sublist (lighting (analysis_scenes analysis ! i))
        (pe_image_prompt (create_prompts str_of analysis subject_description ! i)) \<and>
      sublist (camera (analysis_scenes analysis ! i))
        (pe_image_prompt (create_prompts str_of analysis subject_description ! i)) \<and>
      sublist (environment (analysis_scenes analysis ! i))
        (pe_video_prompt (create_prompts str_of analysis subject_description ! i)) \<and>
      sublist (lighting (analysis_scenes analysis ! i))
        (pe_video_prompt (create_prompts str_of analysis subject_description ! i)) \<and>
      sublist (camera (analysis_scenes analysis ! i))
        (pe_video_prompt (create_prompts str_of analysis subject_description ! i)))"
  by (simp add: create_prompts_map prompt_entry_of_def image_prompt_embeds video_prompt_embeds)

theorem one_prompt_pair_per_scene_witness:
  "length (create_prompts (\<lambda>d :: nat. ''4'')
     \<lparr>total_scenes = 3, analysis_scenes =
        [\<lparr>scene_number = 1, description = ''Opening'', subject = ''a man'', environment = ''a sunny beach'',
           action = ''He walks. He waves.'', lighting = ''Golden hour'', camera = ''Wide shot'', duration = 4\<rparr>,
         \<lparr>scene_number = 2, description = ''Middle'', subject = ''a man'', environment = ''a small kitchen'',
           action = ''He pours coffee.'', lighting = ''Soft window light'', camera = ''Close-up'', duration = 4\<rparr>,
         \<lparr>scene_number = 3, description = ''End'', subject = ''a man'', environment = ''a city street'',
           action = ''He runs.'', lighting = ''Neon at night'', camera = ''Tracking shot'', duration = 4\<rparr>]\<rparr>
     ''A red robot'') = 3 \<and>
   sublist ''a small kitchen'' (pe_image_prompt (create_prompts (\<lambda>d :: nat. ''4'')
     \<lparr>total_scenes = 3, analysis_scenes =
        [\<lparr>scene_number = 1, description = ''Opening'', subject = ''a man'', environment = ''a sunny beach'',
           action = ''He walks. He waves.'', lighting = ''Golden hour'', camera = ''Wide shot'', duration = 4\<rparr>,
         \<lparr>scene_number = 2, description = ''Middle'', subject = ''a man'', environment = ''a small kitchen'',
           action = ''He pours coffee.'', lighting = ''Soft window light'', camera = ''Close-up'', duration = 4\<rparr>,
         \<lparr>scene_number = 3, description = ''End'', subject = ''a man'', environment = ''a city street'',
           action = ''He runs.'', lighting = ''Neon at night'', camera = ''Tracking shot'', duration = 4\<rparr>]\<rparr>
     ''A red robot'' ! 1)) \<and>
   sublist ''Close-up'' (pe_video_prompt (create_prompts (\<lambda>d :: nat. ''4'')
     \<lparr>total_scenes = 3, analysis_scenes =
        [\<lparr>scene_number = 1, description = ''Opening'', subject = ''a man'', environment = ''a sunny beach'',
           action = ''He walks. He waves.'', lighting = ''Golden hour'', camera = ''Wide shot'', duration = 4\<rparr>,
         \<lparr>scene_number = 2, description = ''Middle'', subject = ''a man'', environment = ''a small kitchen'',
           action = ''He pours coffee.'', lighting = ''Soft window light'', camera = ''Close-up'', duration = 4\<rparr>,
         \<lparr>scene_number = 3, description = ''End'', subject = ''a man'', environment = ''a city street'',
           action = ''He runs.'', lighting = ''Neon at night'', camera = ''Tracking shot'', duration = 4\<rparr>]\<rparr>
     ''A red robot'' ! 1))"
  (is "length (create_prompts ?str ?A ?subj) = 3 \<and> _")
proof -
  have "1 < length (analysis_scenes ?A)"
    by simp
  from one_prompt_pair_per_scene [of ?str ?A ?subj, THEN conjunct2, rule_format, OF this]
       one_prompt_pair_per_scene [of ?str ?A ?subj, THEN conjunct1]
  show ?thesis
    by simp
qed


section \<open>Properties of polling\<close>







section \<open>Properties of the combine stage\<close>

text \<open>
  Claim C10. When FFmpeg is there and exactly one video file is found, the combine stage
  exits with code 0 after reporting the one file: FFmpeg is not asked to combine anything
  and no file is written, so the output file is not produced.
\<close>

theorem single_video_exits_with_success:
  assumes "ffmpeg_installed env"
    and "find_video_files (mp4_files env) (project_filter args) = Inr [video]"
  shows "combine_main env args = (Exited 0, [CheckFfmpeg, PrintOnlyOneVideo video]) \<and>
         exit_code (fst (combine_main env args)) = 0 \<and>
         filter is_mux_call (snd (combine_main env args)) = [] \<and>
         filter is_file_write (snd (combine_main env args)) = []"
  using assms
  by (simp add: combine_main_def exit_code_def is_mux_call_def is_file_write_def)

theorem single_video_exits_with_success_witness:
  "find_video_files (Some [''scene_1_intro.mp4'']) None = Inr [''scene_1_intro.mp4''] \<and>
   combine_main
     \<lparr>ffmpeg_installed = True, mp4_files = Some [''scene_1_intro.mp4''], concat_file_written = True,
      combine_videos_ok = True, add_background_music_ok = True\<rparr>
     \<lparr>dry_run = False, input_dir = ''outputs'', output_path = ''outputs/final_video.mp4'',
      project_filter = None, music = None, re_encode = False\<rparr>
   = (Exited 0, [CheckFfmpeg, PrintOnlyOneVideo ''scene_1_intro.mp4''])"
proof -
  have found: "find_video_files (Some [''scene_1_intro.mp4'']) None = Inr [''scene_1_intro.mp4'']"
    by (simp add: find_video_files_def py_sort_def Let_def)
  show ?thesis
    using found
      single_video_exits_with_success
        [of "\<lparr>ffmpeg_installed = True, mp4_files = Some [''scene_1_intro.mp4''], concat_file_written = True,
              combine_videos_ok = True, add_background_music_ok = True\<rparr>"
            "\<lparr>dry_run = False, input_dir = ''outputs'', output_path = ''outputs/final_video.mp4'',
              project_filter = None, music = None, re_encode = False\<rparr>"
            "''scene_1_intro.mp4''"]
    by simp
qed


section \<open>Properties of a dry run\<close>

lemma images_plan_quiet:
  "e \<in> set (images_plan scenes) \<Longrightarrow> \<not> is_remote_call e \<and> \<not> is_store_write e \<and> \<not> is_mux_call e \<and> \<not> is_file_write e"
  by (auto simp: images_plan_def is_remote_call_def is_store_write_def is_mux_call_def is_file_write_def)

lemma images_load_scenes_quiet:
  assumes "test_mode args \<longrightarrow> table_all env (''TEST-'' @ project_name args) \<noteq> Inr []"
    and "e \<in> set (snd (images_load_scenes env args))"
  shows "\<not> is_remote_call e \<and> \<not> is_store_write e \<and> \<not> is_mux_call e \<and> \<not> is_file_write e"
  using assms
  by (auto simp: images_load_scenes_def images_get_scenes_from_airtable_def
        is_remote_call_def is_store_write_def is_mux_call_def is_file_write_def
        split: sum.splits if_splits)

lemma images_dry_run_quiet:
  assumes "dry_run args"
    and "test_mode args \<longrightarrow> table_all env (''TEST-'' @ project_name args) \<noteq> Inr []"
    and "e \<in> set (snd (images_main env args))"
  shows "\<not> is_remote_call e \<and> \<not> is_store_write e \<and> \<not> is_mux_call e \<and> \<not> is_file_write e"
proof (cases "config_present env")
  case False
  then show ?thesis
    using assms(3) by (simp add: images_main_def)
next
  case True
  obtain loaded_scenes loaded where loaded: "images_load_scenes env args = (loaded_scenes, loaded)"
    by (cases "images_load_scenes env args")
  have quiet: "\<And>x. x \<in> set loaded \<Longrightarrow>
      \<not> is_remote_call x \<and> \<not> is_store_write x \<and> \<not> is_mux_call x \<and> \<not> is_file_write x"
    using images_load_scenes_quiet [OF assms(2)] loaded by simp
  show ?thesis
  proof (cases loaded_scenes)
    case (Inl out)
    then show ?thesis
      using assms(3) True loaded quiet by (simp add: images_main_def)
  next
    case (Inr scenes)
    then have "e \<in> set loaded \<or> e \<in> set (images_plan scenes)"
      using assms(1,3) True loaded by (simp add: images_main_def)
    then show ?thesis
      using quiet images_plan_quiet by blast
  qed
qed

lemma images_dry_run_plan:
  assumes "dry_run args" and "config_present env" and "\<not> test_mode args"
    and "table_all env (project_name args) = Inr scenes" and "scenes \<noteq> []"
  shows "images_main env args = (Returned, StoreRead (project_name args) # images_plan scenes)"
  using assms
  by (simp add: images_main_def images_load_scenes_def images_get_scenes_from_airtable_def)

lemma videos_plan_prints:
  "e \<in> set (snd (videos_plan i scenes)) \<Longrightarrow> \<exists>k rid. e = PrintPlan k rid"
proof (induction scenes arbitrary: i)
  case Nil
  then show ?case by simp
next
  case (Cons r rest)
  show ?case
  proof (cases "get_image_url_from_record r")
    case (Inl x)
    then show ?thesis
      using Cons.prems by simp
  next
    case (Inr image_url)
    obtain out printed where rest: "videos_plan (i + 1) rest = (out, printed)"
      by (cases "videos_plan (i + 1) rest")
    then have "e = PrintPlan i (rec_id r) \<or> e \<in> set printed"
      using Inr Cons.prems by simp
    then show ?thesis
      using Cons.IH [of "i + 1"] rest by auto
  qed
qed

lemma videos_plan_quiet:
  "e \<in> set (snd (videos_plan i scenes)) \<Longrightarrow> \<not> is_remote_call e \<and> \<not> is_store_write e \<and> \<not> is_mux_call e \<and> \<not> is_file_write e"
  using videos_plan_prints [of e i scenes]
  by (auto simp: is_remote_call_def is_store_write_def is_mux_call_def is_file_write_def)

lemma videos_plan_ready:
  assumes "\<forall>r\<in>set scenes. has_image r"
  shows "videos_plan i scenes =
           (Returned, map (\<lambda>(k, record). PrintPlan k (rec_id record)) (enumerate i scenes))"
  using assms
proof (induction scenes arbitrary: i)
  case Nil
  then show ?case by simp
next
  case (Cons r rest)
  then obtain first_image more where "start_image r = Some (first_image # more)"
    by (auto simp: has_image_iff)
  then have "get_image_url_from_record r = Inr (url first_image)"
    by (simp add: get_image_url_from_record_def)
  then show ?case
    using Cons by simp
qed

lemma videos_scenes_have_images:
  assumes "videos_get_scenes_from_airtable query project = Inr scenes"
  shows "\<forall>r\<in>set scenes. has_image r"
  using assms
  by (auto simp: videos_get_scenes_from_airtable_def select_ready_filter split: sum.splits if_splits)

lemma videos_dry_run_log:
  assumes "dry_run args"
  shows "snd (videos_main env args) = [] \<or>
         snd (videos_main env args) = [StoreRead (project_name args)] \<or>
         (\<exists>scenes. snd (videos_main env args) =
                     StoreRead (project_name args) # snd (videos_plan 1 scenes))"
proof (cases "videos_get_scenes_from_airtable (table_all env) (project_name args)")
  case (Inl x)
  then show ?thesis
    by (simp add: videos_main_def)
next
  case (Inr scenes)
  obtain out printed where "videos_plan 1 scenes = (out, printed)"
    by (cases "videos_plan 1 scenes")
  then have "snd (videos_main env args) = [] \<or>
         snd (videos_main env args) = [StoreRead (project_name args)] \<or>
         snd (videos_main env args) = StoreRead (project_name args) # snd (videos_plan 1 scenes)"
    using Inr assms by (simp add: videos_main_def)
  then show ?thesis
    by blast
qed

lemma videos_dry_run_quiet:
  assumes "dry_run args" and "e \<in> set (snd (videos_main env args))"
  shows "\<not> is_remote_call e \<and> \<not> is_store_write e \<and> \<not> is_mux_call e \<and> \<not> is_file_write e"
proof -
  have "e = StoreRead (project_name args) \<or>
        (\<exists>scenes. e \<in> set (snd (videos_plan 1 scenes)))"
    using videos_dry_run_log [OF assms(1), of env] assms(2) by auto
  then show ?thesis
    using videos_plan_quiet
    by (auto simp: is_remote_call_def is_store_write_def is_mux_call_def is_file_write_def)
qed

lemma videos_dry_run_plan:
  assumes "dry_run args" and "config_present env" and "\<not> test_mode args"
    and "videos_get_scenes_from_airtable (table_all env) (project_name args) = Inr scenes"
    and "scenes \<noteq> []"
  shows "videos_main env args =
           (Returned, StoreRead (project_name args) #
                      map (\<lambda>(k, record). PrintPlan k (rec_id record)) (enumerate 1 scenes))"
  using assms videos_plan_ready [OF videos_scenes_have_images [OF assms(4)], of 1]
  by (simp add: videos_main_def)

lemma combine_dry_run_quiet:
  assumes "dry_run args" and "e \<in> set (snd (combine_main env args))"
  shows "\<not> is_mux_call e \<and> \<not> is_file_write e \<and> \<not> is_remote_call e \<and> \<not> is_store_write e"
  using assms
  by (auto simp: combine_main_def plan_files_def is_mux_call_def is_file_write_def
        is_remote_call_def is_store_write_def split: sum.splits if_splits)

lemma combine_dry_run_plan:
  assumes "dry_run args" and "ffmpeg_installed env"
    and "find_video_files (mp4_files env) (project_filter args) = Inr video_files"
    and "2 \<le> length video_files"
  shows "combine_main env args = (Returned, CheckFfmpeg # plan_files video_files)"
  using assms by (auto simp: combine_main_def)

text \<open>
  The dry runs that keep their promise. With the dry-run flag set: the video stage makes no
  call to the generation provider, writes nothing to the store, runs no FFmpeg job and
  writes no file, and so does the image stage outside test mode, and in test mode when the
  test record exists; each of the two reads the store and, when the credentials are present
  and there are scenes, returns after printing one plan entry for each scene. The combine
  stage does none of the four either, and with FFmpeg present and at least two files it
  returns after printing one plan entry for each file.
\<close>

lemma dry_run_quiet_elsewhere:
  "(dry_run iargs \<and> (test_mode iargs \<longrightarrow> table_all env (''TEST-'' @ project_name iargs) \<noteq> Inr []) \<longrightarrow>
      (\<forall>e\<in>set (snd (images_main env iargs)).
         \<not> is_remote_call e \<and> \<not> is_store_write e \<and> \<not> is_mux_call e \<and> \<not> is_file_write e)) \<and>
   (dry_run iargs \<and> config_present env \<and> \<not> test_mode iargs \<and>
    table_all env (project_name iargs) = Inr iscenes \<and> iscenes \<noteq> [] \<longrightarrow>
      images_main env iargs =
        (Returned, StoreRead (project_name iargs) #
                   map (\<lambda>(k, record). PrintPlan k (rec_id record)) (enumerate 1 iscenes))) \<and>
   (dry_run vargs \<longrightarrow>
      (\<forall>e\<in>set (snd (videos_main env vargs)).
         \<not> is_remote_call e \<and> \<not> is_store_write e \<and> \<not> is_mux_call e \<and> \<not> is_file_write e)) \<and>
   (dry_run vargs \<and> config_present env \<and> \<not> test_mode vargs \<and>
    videos_get_scenes_from_airtable (table_all env) (project_name vargs) = Inr vscenes \<and> vscenes \<noteq> [] \<longrightarrow>
      videos_main env vargs =
        (Returned, StoreRead (project_name vargs) #
                   map (\<lambda>(k, record). PrintPlan k (rec_id record)) (enumerate 1 vscenes))) \<and>
   (dry_run cargs \<longrightarrow>
      (\<forall>e\<in>set (snd (combine_main cenv cargs)).
         \<not> is_mux_call e \<and> \<not> is_file_write e \<and> \<not> is_remote_call e \<and> \<not> is_store_write e)) \<and>
   (dry_run cargs \<and> ffmpeg_installed cenv \<and>
    find_video_files (mp4_files cenv) (project_filter cargs) = Inr video_files \<and>
    2 \<le> length video_files \<longrightarrow>
      combine_main cenv cargs =
        (Returned, CheckFfmpeg # map (\<lambda>(k, video). PrintPlanFile k video) (enumerate 1 video_files)))"
proof (intro conjI impI ballI)
  fix e
  assume "dry_run iargs \<and> (test_mode iargs \<longrightarrow> table_all env (''TEST-'' @ project_name iargs) \<noteq> Inr [])"
    and "e \<in> set (snd (images_main env iargs))"
  then show "\<not> is_remote_call e" "\<not> is_store_write e" "\<not> is_mux_call e" "\<not> is_file_write e"
    using images_dry_run_quiet [of iargs env e] by simp_all
next
  assume "dry_run iargs \<and> config_present env \<and> \<not> test_mode iargs \<and>
    table_all env (project_name iargs) = Inr iscenes \<and> iscenes \<noteq> []"
  then show "images_main env iargs =
        (Returned, StoreRead (project_name iargs) #
                   map (\<lambda>(k, record). PrintPlan k (rec_id record)) (enumerate 1 iscenes))"
    using images_dry_run_plan [of iargs env iscenes] by (simp add: images_plan_def)
next
  fix e
  assume "dry_run vargs" and "e \<in> set (snd (videos_main env vargs))"
  then show "\<not> is_remote_call e" "\<not> is_store_write e" "\<not> is_mux_call e" "\<not> is_file_write e"
    using videos_dry_run_quiet [of vargs e env] by simp_all
next
  assume "dry_run vargs \<and> config_present env \<and> \<not> test_mode vargs \<and>
    videos_get_scenes_from_airtable (table_all env) (project_name vargs) = Inr vscenes \<and> vscenes \<noteq> []"
  then show "videos_main env vargs =
        (Returned, StoreRead (project_name vargs) #
                   map (\<lambda>(k, record). PrintPlan k (rec_id record)) (enumerate 1 vscenes))"
    using videos_dry_run_plan [of vargs env vscenes] by simp
next
  fix e
  assume "dry_run cargs" and "e \<in> set (snd (combine_main cenv cargs))"
  then show "\<not> is_mux_call e" "\<not> is_file_write e" "\<not> is_remote_call e" "\<not> is_store_write e"
    using combine_dry_run_quiet [of cargs e cenv] by simp_all
next
  assume "dry_run cargs \<and> ffmpeg_installed cenv \<and>
    find_video_files (mp4_files cenv) (project_filter cargs) = Inr video_files \<and>
    2 \<le> length video_files"
  then show "combine_main cenv cargs =
        (Returned, CheckFfmpeg # map (\<lambda>(k, video). PrintPlanFile k video) (enumerate 1 video_files))"
    using combine_dry_run_plan [of cargs cenv video_files] by (simp add: plan_files_def)
qed

lemma demo_ready:
  "videos_get_scenes_from_airtable (table_all demo_env) ''Demo'' = Inr [scene_a, scene_b, scene_c]"
  by (simp add: videos_get_scenes_from_airtable_def demo_env_def has_image_def has_video_def
        scene_a_def scene_b_def scene_c_def)

lemma demo_files:
  "find_video_files (mp4_files demo_combine_env) (project_filter demo_combine_args) =
     Inr [''scene_1_z.mp4'', ''scene_2_x.mp4'']"
  by (simp add: demo_combine_env_def demo_combine_args_def find_video_files_unfiltered py_sort_def
        example_keys is_int_key_def int_key_def)

lemma dry_run_plans_of_example:
  "images_main demo_env (demo_images_args\<lparr>dry_run := True\<rparr>) =
     (Returned, [StoreRead ''Demo'', PrintPlan 1 ''recA'', PrintPlan 2 ''recB'', PrintPlan 3 ''recC'']) \<and>
   videos_main demo_env (demo_videos_args\<lparr>dry_run := True\<rparr>) =
     (Returned, [StoreRead ''Demo'', PrintPlan 1 ''recA'', PrintPlan 2 ''recB'', PrintPlan 3 ''recC'']) \<and>
   combine_main demo_combine_env demo_combine_args =
     (Returned, [CheckFfmpeg, PrintPlanFile 1 ''scene_1_z.mp4'', PrintPlanFile 2 ''scene_2_x.mp4''])"
proof -
  have "dry_run (demo_images_args\<lparr>dry_run := True\<rparr>) \<and> config_present demo_env \<and>
        \<not> test_mode (demo_images_args\<lparr>dry_run := True\<rparr>) \<and>
        table_all demo_env (project_name (demo_images_args\<lparr>dry_run := True\<rparr>)) =
          Inr [scene_a, scene_b, scene_c] \<and> [scene_a, scene_b, scene_c] \<noteq> []"
    by (simp add: demo_env_def demo_images_args_def)
  moreover have "dry_run (demo_videos_args\<lparr>dry_run := True\<rparr>) \<and> config_present demo_env \<and>
        \<not> test_mode (demo_videos_args\<lparr>dry_run := True\<rparr>) \<and>
        videos_get_scenes_from_airtable (table_all demo_env)
          (project_name (demo_videos_args\<lparr>dry_run := True\<rparr>)) = Inr [scene_a, scene_b, scene_c] \<and>
        [scene_a, scene_b, scene_c] \<noteq> []"
    using demo_ready by (simp add: demo_env_def demo_videos_args_def)
  moreover have "dry_run demo_combine_args \<and> ffmpeg_installed demo_combine_env \<and>
        find_video_files (mp4_files demo_combine_env) (project_filter demo_combine_args) =
          Inr [''scene_1_z.mp4'', ''scene_2_x.mp4''] \<and>
        2 \<le> length [''scene_1_z.mp4'', ''scene_2_x.mp4'']"
    using demo_files by (simp add: demo_combine_env_def demo_combine_args_def)
  ultimately show ?thesis
    using dry_run_quiet_elsewhere
      [of "demo_images_args\<lparr>dry_run := True\<rparr>" demo_env "[scene_a, scene_b, scene_c]"
          "demo_videos_args\<lparr>dry_run := True\<rparr>" "[scene_a, scene_b, scene_c]"
          demo_combine_args demo_combine_env "[''scene_1_z.mp4'', ''scene_2_x.mp4'']"]
    by (simp add: demo_images_args_def demo_videos_args_def scene_a_def scene_b_def scene_c_def
          enumerate_eq_zip)
qed

text \<open>
  Claim C8 asks that a dry run of any stage makes no remote call and writes nothing to the
  store. The image stage loads its scenes before it looks at the dry-run flag, and in test
  mode the loading creates the test record when the store has none: with \<open>--test-mode\<close>
  and \<open>--dry-run\<close> on the example store the run reads the store, creates the record, a
  store write, and only then prints its plan.
\<close>

theorem dry_run_in_test_mode_creates_record:
  "dry_run (demo_images_args\<lparr>dry_run := True, test_mode := True\<rparr>) \<and>
   table_all demo_env (''TEST-'' @ project_name (demo_images_args\<lparr>dry_run := True, test_mode := True\<rparr>)) =
     Inr [] \<and>
   images_main demo_env (demo_images_args\<lparr>dry_run := True, test_mode := True\<rparr>) =
     (Returned, [StoreRead ''TEST-Demo'', StoreCreate ''TEST-Demo'', PrintPlan 1 ''recT'']) \<and>
   is_store_write (StoreCreate ''TEST-Demo'')"
  by (simp add: images_main_def images_load_scenes_def images_plan_def demo_env_def
        demo_images_args_def is_store_write_def enumerate_eq_zip)


section \<open>Properties of the batch loops\<close>

lemma images_loop_successful:
  "successful (images_loop env cfg n i scenes b) =
     successful b +
     length (filter (\<lambda>(k, r). fst (images_handle_scene env cfg n k r) = Succeeded) (enumerate i scenes))"
  by (induction scenes arbitrary: i b) (auto split: prod.splits)

lemma images_loop_failed:
  "failed (images_loop env cfg n i scenes b) =
     failed b +
     length (filter (\<lambda>(k, r). fst (images_handle_scene env cfg n k r) \<noteq> Succeeded) (enumerate i scenes))"
  by (induction scenes arbitrary: i b) (auto split: prod.splits)

lemma images_loop_log:
  "images_log (images_loop env cfg n i scenes b) =
     images_log b @ concat (map (\<lambda>(k, r). snd (images_handle_scene env cfg n k r)) (enumerate i scenes))"
  by (induction scenes arbitrary: i b) (auto split: prod.splits)

lemma videos_loop_success_count:
  "success_count (videos_loop env args n i scenes b) =
     success_count b +
     length (filter (\<lambda>(k, r). fst (videos_handle_scene env args n k r) = Succeeded) (enumerate i scenes))"
  by (induction scenes arbitrary: i b) (auto split: prod.splits scene_result.splits)

lemma videos_loop_fail_count:
  "fail_count (videos_loop env args n i scenes b) =
     fail_count b +
     length (filter (\<lambda>(k, r). fst (videos_handle_scene env args n k r) = Failed) (enumerate i scenes))"
  by (induction scenes arbitrary: i b) (auto split: prod.splits scene_result.splits)

lemma videos_loop_actual_cost:
  "actual_cost (videos_loop env args n i scenes b) =
     actual_cost b +
     of_nat (length (filter (\<lambda>(k, r). fst (videos_handle_scene env args n k r) = Succeeded)
                       (enumerate i scenes))) * cost SORA_2"
  by (induction scenes arbitrary: i b) (auto split: prod.splits scene_result.splits simp: algebra_simps)

lemma videos_loop_log:
  "videos_log (videos_loop env args n i scenes b) =
     videos_log b @ concat (map (\<lambda>(k, r). snd (videos_handle_scene env args n k r)) (enumerate i scenes))"
  by (induction scenes arbitrary: i b) (auto split: prod.splits scene_result.splits)

lemma images_handle_scene_result:
  "fst (images_handle_scene env cfg n k r) = Succeeded \<or> fst (images_handle_scene env cfg n k r) = Failed"
  by (auto simp: images_handle_scene_def images_try_scene_def create_generation_task_def Let_def
        split: prod.splits sum.splits list.splits)

lemma images_handle_scene_headers:
  "filter is_scene_header (snd (images_handle_scene env cfg n k r)) = [PrintScene k n (scene_label r k)]"
  by (auto simp: images_handle_scene_def images_try_scene_def create_generation_task_def Let_def
        is_scene_header_def split: prod.splits sum.splits list.splits)

lemma videos_handle_scene_headers:
  "filter is_scene_header (snd (videos_handle_scene env args n k r)) = [PrintScene k n (scene_label r k)]"
  by (auto simp: videos_handle_scene_def videos_try_scene_def create_generation_task_def Let_def
        is_scene_header_def split: prod.splits sum.splits list.splits)

lemma headers_of_batch:
  assumes "\<And>k r. filter is_scene_header (snd (handle k r)) = [PrintScene k n (scene_label r k)]"
  shows "filter is_scene_header (concat (map (\<lambda>(k, r). snd (handle k r)) indexed)) =
           map (\<lambda>(k, r). PrintScene k n (scene_label r k)) indexed"
  by (induction indexed) (auto simp: assms)

lemma images_handle_scene_submits:
  assumes "start_image_prompt r = Some p" and "p \<noteq> []"
  shows "CreateTask (fit_prompt cfg p) \<in> set (snd (images_handle_scene env cfg n k r))"
  using assms
  by (auto simp: images_handle_scene_def images_try_scene_def create_generation_task_def Let_def
        split: prod.splits sum.splits list.splits)

lemma videos_handle_scene_submits:
  assumes "get_image_url_from_record r = Inr image_url" and "video_prompt r = Some p" and "p \<noteq> []"
  shows "CreateTask (fit_prompt SORA_2 p) \<in> set (snd (videos_handle_scene env args n k r))"
  using assms
  by (auto simp: videos_handle_scene_def videos_try_scene_def create_generation_task_def Let_def
        split: prod.splits sum.splits list.splits)

lemma images_handle_scene_fails:
  assumes "start_image_prompt r = Some p" and "p \<noteq> []"
    and "submit_task (post_create_task env k (fit_prompt cfg p)) = Inl e \<or>
         (\<exists>task_id. submit_task (post_create_task env k (fit_prompt cfg p)) = Inr task_id \<and>
                    poll_result env k task_id = Inl e)"
  shows "fst (images_handle_scene env cfg n k r) = Failed"
  using assms
  by (auto simp: images_handle_scene_def images_try_scene_def create_generation_task_def)

lemma videos_handle_scene_fails:
  assumes "get_image_url_from_record r = Inr image_url" and "video_prompt r = Some p" and "p \<noteq> []"
    and "submit_task (post_create_task env k (fit_prompt SORA_2 p)) = Inl e \<or>
         (\<exists>task_id. submit_task (post_create_task env k (fit_prompt SORA_2 p)) = Inr task_id \<and>
                    poll_result env k task_id = Inl e)"
  shows "fst (videos_handle_scene env args n k r) = Failed"
  using assms
  by (auto simp: videos_handle_scene_def videos_try_scene_def create_generation_task_def)

lemma effect_of_scene_in_batch:
  assumes "(k, r) \<in> set indexed" and "x \<in> set (snd (handle k r))"
  shows "x \<in> set (b @ concat (map (\<lambda>(k, r). snd (handle k r)) indexed))"
  using assms by auto

lemma submit_rejections:
  "submit_task CreateRequestException = Inl RequestException"
  "submit_task (CreateResponse 402 body) = Inl (FailedToCreateTask InsufficientCredits)"
  "submit_task (CreateResponse 422 body) = Inl (FailedToCreateTask InvalidParameters)"
  "submit_task (CreateResponse 429 body) = Inl (FailedToCreateTask RateLimited)"
  by (simp_all add: submit_task_def)

text \<open>The accounting of the image stage: every scene is counted once.\<close>

lemma images_batch_accounting:
  "successful (images_loop env cfg n i scenes b) + failed (images_loop env cfg n i scenes b) =
     successful b + failed b + length scenes"
proof -
  let ?ok = "\<lambda>(k, r). fst (images_handle_scene env cfg n k r) = Succeeded"
  have "length (filter ?ok (enumerate i scenes)) +
        length (filter (\<lambda>x. \<not> ?ok x) (enumerate i scenes)) = length (enumerate i scenes)"
    by (rule sum_length_filter_compl)
  moreover have "(\<lambda>x. \<not> ?ok x) = (\<lambda>(k, r). fst (images_handle_scene env cfg n k r) \<noteq> Succeeded)"
    by auto
  ultimately show ?thesis
    by (simp add: images_loop_successful images_loop_failed)
qed

text \<open>The cost that the video stage reports is the number of successes times the unit cost.\<close>

lemma videos_batch_cost:
  "actual_cost (videos_loop env args n i scenes
      \<lparr>success_count = 0, fail_count = 0, actual_cost = 0, videos_log = start\<rparr>) =
   of_nat (success_count (videos_loop env args n i scenes
      \<lparr>success_count = 0, fail_count = 0, actual_cost = 0, videos_log = start\<rparr>)) * cost SORA_2"
  by (simp add: videos_loop_actual_cost videos_loop_success_count)

text \<open>
  Claim C7. In the loop of either stage every scene of the batch is started, in order,
  whatever happened to the scenes before it; the failed counter is the number of scenes
  whose handling failed; every scene that has its prompt (and, for a video, its image) has
  its task submitted; and a scene whose task creation is rejected or meets a transport
  error, or whose polling raises (a remote failure or a timeout), is a failed scene.
\<close>

theorem scene_failure_never_aborts_batch:
  "filter is_scene_header
     (images_log (images_loop env cfg (length scenes) 1 scenes
        \<lparr>successful = 0, failed = 0, images_log = []\<rparr>)) =
     map (\<lambda>(k, r). PrintScene k (length scenes) (scene_label r k)) (enumerate 1 scenes) \<and>
   failed (images_loop env cfg (length scenes) 1 scenes
        \<lparr>successful = 0, failed = 0, images_log = []\<rparr>) =
     length (filter (\<lambda>(k, r). fst (images_handle_scene env cfg (length scenes) k r) = Failed)
               (enumerate 1 scenes)) \<and>
   ((k, r) \<in> set (enumerate 1 scenes) \<and> start_image_prompt r = Some p \<and> p \<noteq> [] \<longrightarrow>
      CreateTask (fit_prompt cfg p) \<in>
        set (images_log (images_loop env cfg (length scenes) 1 scenes
               \<lparr>successful = 0, failed = 0, images_log = []\<rparr>))) \<and>
   (start_image_prompt r = Some p \<and> p \<noteq> [] \<and>
    (submit_task (post_create_task env k (fit_prompt cfg p)) = Inl e \<or>
     (\<exists>task_id. submit_task (post_create_task env k (fit_prompt cfg p)) = Inr task_id \<and>
                poll_result env k task_id = Inl e)) \<longrightarrow>
      fst (images_handle_scene env cfg (length scenes) k r) = Failed) \<and>
   filter is_scene_header
     (videos_log (videos_loop env args (length scenes) 1 scenes
        \<lparr>success_count = 0, fail_count = 0, actual_cost = 0, videos_log = []\<rparr>)) =
     map (\<lambda>(k, r). PrintScene k (length scenes) (scene_label r k)) (enumerate 1 scenes) \<and>
   fail_count (videos_loop env args (length scenes) 1 scenes
        \<lparr>success_count = 0, fail_count = 0, actual_cost = 0, videos_log = []\<rparr>) =
     length (filter (\<lambda>(k, r). fst (videos_handle_scene env args (length scenes) k r) = Failed)
               (enumerate 1 scenes)) \<and>
   ((k, r) \<in> set (enumerate 1 scenes) \<and> get_image_url_from_record r = Inr image_url \<and>
    video_prompt r = Some q \<and> q \<noteq> [] \<longrightarrow>
      CreateTask (fit_prompt SORA_2 q) \<in>
        set (videos_log (videos_loop env args (length scenes) 1 scenes
               \<lparr>success_count = 0, fail_count = 0, actual_cost = 0, videos_log = []\<rparr>))) \<and>
   (get_image_url_from_record r = Inr image_url \<and> video_prompt r = Some q \<and> q \<noteq> [] \<and>
    (submit_task (post_create_task env k (fit_prompt SORA_2 q)) = Inl e \<or>
     (\<exists>task_id. submit_task (post_create_task env k (fit_prompt SORA_2 q)) = Inr task_id \<and>
                poll_result env k task_id = Inl e)) \<longrightarrow>
      fst (videos_handle_scene env args (length scenes) k r) = Failed)"
proof (intro conjI impI)
  show "filter is_scene_header
     (images_log (images_loop env cfg (length scenes) 1 scenes
        \<lparr>successful = 0, failed = 0, images_log = []\<rparr>)) =
     map (\<lambda>(k, r). PrintScene k (length scenes) (scene_label r k)) (enumerate 1 scenes)"
    by (simp add: images_loop_log headers_of_batch [OF images_handle_scene_headers])
  have "(\<lambda>(k, r). fst (images_handle_scene env cfg (length scenes) k r) \<noteq> Succeeded) =
        (\<lambda>(k, r). fst (images_handle_scene env cfg (length scenes) k r) = Failed)"
    using images_handle_scene_result [of env cfg "length scenes"] by (auto simp: fun_eq_iff)
  then show "failed (images_loop env cfg (length scenes) 1 scenes
        \<lparr>successful = 0, failed = 0, images_log = []\<rparr>) =
     length (filter (\<lambda>(k, r). fst (images_handle_scene env cfg (length scenes) k r) = Failed)
               (enumerate 1 scenes))"
    by (simp add: images_loop_failed)
  show "CreateTask (fit_prompt cfg p) \<in>
        set (images_log (images_loop env cfg (length scenes) 1 scenes
               \<lparr>successful = 0, failed = 0, images_log = []\<rparr>))"
    if "(k, r) \<in> set (enumerate 1 scenes) \<and> start_image_prompt r = Some p \<and> p \<noteq> []"
    using that images_handle_scene_submits [of r p cfg env "length scenes" k]
      effect_of_scene_in_batch [of k r "enumerate 1 scenes" _ "images_handle_scene env cfg (length scenes)" "[]"]
    by (simp add: images_loop_log)
  show "fst (images_handle_scene env cfg (length scenes) k r) = Failed"
    if "start_image_prompt r = Some p \<and> p \<noteq> [] \<and>
      (submit_task (post_create_task env k (fit_prompt cfg p)) = Inl e \<or>
       (\<exists>task_id. submit_task (post_create_task env k (fit_prompt cfg p)) = Inr task_id \<and>
                  poll_result env k task_id = Inl e))"
    using that images_handle_scene_fails [of r p env k cfg e "length scenes"] by blast
  show "filter is_scene_header
     (videos_log (videos_loop env args (length scenes) 1 scenes
        \<lparr>success_count = 0, fail_count = 0, actual_cost = 0, videos_log = []\<rparr>)) =
     map (\<lambda>(k, r). PrintScene k (length scenes) (scene_label r k)) (enumerate 1 scenes)"
    by (simp add: videos_loop_log headers_of_batch [OF videos_handle_scene_headers])
  show "fail_count (videos_loop env args (length scenes) 1 scenes
        \<lparr>success_count = 0, fail_count = 0, actual_cost = 0, videos_log = []\<rparr>) =
     length (filter (\<lambda>(k, r). fst (videos_handle_scene env args (length scenes) k r) = Failed)
               (enumerate 1 scenes))"
    by (simp add: videos_loop_fail_count)
  show "CreateTask (fit_prompt SORA_2 q) \<in>
        set (videos_log (videos_loop env args (length scenes) 1 scenes
               \<lparr>success_count = 0, fail_count = 0, actual_cost = 0, videos_log = []\<rparr>))"
    if "(k, r) \<in> set (enumerate 1 scenes) \<and> get_image_url_from_record r = Inr image_url \<and>
        video_prompt r = Some q \<and> q \<noteq> []"
    using that videos_handle_scene_submits [of r image_url q env args "length scenes" k]
      effect_of_scene_in_batch [of k r "enumerate 1 scenes" _ "videos_handle_scene env args (length scenes)" "[]"]
    by (simp add: videos_loop_log)
  show "fst (videos_handle_scene env args (length scenes) k r) = Failed"
    if "get_image_url_from_record r = Inr image_url \<and> video_prompt r = Some q \<and> q \<noteq> [] \<and>
      (submit_task (post_create_task env k (fit_prompt SORA_2 q)) = Inl e \<or>
       (\<exists>task_id. submit_task (post_create_task env k (fit_prompt SORA_2 q)) = Inr task_id \<and>
                  poll_result env k task_id = Inl e))"
    using that videos_handle_scene_fails [of r image_url q env k e args "length scenes"] by blast
qed

theorem scene_failure_never_aborts_batch_witness:
  "submit_task (post_create_task demo_env 1 (fit_prompt (IMAGE_MODELS ZImage) ''A robot on a beach'')) =
     Inl (FailedToCreateTask InsufficientCredits) \<and>
   fst (images_handle_scene demo_env (IMAGE_MODELS ZImage) (length [scene_a, scene_b, scene_c]) 1 scene_a) =
     Failed \<and>
   failed (images_loop demo_env (IMAGE_MODELS ZImage) (length [scene_a, scene_b, scene_c]) 1
             [scene_a, scene_b, scene_c] \<lparr>successful = 0, failed = 0, images_log = []\<rparr>) = 1 \<and>
   CreateTask (fit_prompt (IMAGE_MODELS ZImage) ''A robot in a kitchen'') \<in>
     set (images_log (images_loop demo_env (IMAGE_MODELS ZImage) (length [scene_a, scene_b, scene_c]) 1
                        [scene_a, scene_b, scene_c] \<lparr>successful = 0, failed = 0, images_log = []\<rparr>)) \<and>
   fst (videos_handle_scene demo_env demo_videos_args (length [scene_a, scene_b, scene_c]) 1 scene_a) =
     Failed \<and>
   CreateTask (fit_prompt SORA_2 ''The robot runs'') \<in>
     set (videos_log (videos_loop demo_env demo_videos_args (length [scene_a, scene_b, scene_c]) 1
                        [scene_a, scene_b, scene_c]
                        \<lparr>success_count = 0, fail_count = 0, actual_cost = 0, videos_log = []\<rparr>))"
proof -
  let ?cfg = "IMAGE_MODELS ZImage"
  let ?scenes = "[scene_a, scene_b, scene_c]"
  have rejected: "submit_task (post_create_task demo_env 1 (fit_prompt ?cfg ''A robot on a beach'')) =
     Inl (FailedToCreateTask InsufficientCredits)"
    by (simp add: demo_env_def submit_task_def)
  have rejected_video: "submit_task (post_create_task demo_env 1 (fit_prompt SORA_2 ''The robot walks'')) =
     Inl (FailedToCreateTask InsufficientCredits)"
    by (simp add: demo_env_def submit_task_def)
  have a: "start_image_prompt scene_a = Some ''A robot on a beach''" "''A robot on a beach'' \<noteq> []"
    "video_prompt scene_a = Some ''The robot walks''" "''The robot walks'' \<noteq> []"
    "get_image_url_from_record scene_a = Inr ''https://img/1.png''"
    by (simp_all add: scene_a_def get_image_url_from_record_def)
  have b: "start_image_prompt scene_b = Some ''A robot in a kitchen''" "''A robot in a kitchen'' \<noteq> []"
    by (simp_all add: scene_b_def)
  have c: "video_prompt scene_c = Some ''The robot runs''" "''The robot runs'' \<noteq> []"
    "get_image_url_from_record scene_c = Inr ''https://img/3.png''"
    by (simp_all add: scene_c_def get_image_url_from_record_def)
  have members: "(2, scene_b) \<in> set (enumerate 1 ?scenes)" "(3, scene_c) \<in> set (enumerate 1 ?scenes)"
    by (simp_all add: enumerate_eq_zip)
  note image_facts =
    scene_failure_never_aborts_batch
      [of demo_env ?cfg ?scenes 1 scene_a "''A robot on a beach''" "FailedToCreateTask InsufficientCredits"]
  note image_submit =
    scene_failure_never_aborts_batch
      [of demo_env ?cfg ?scenes 2 scene_b "''A robot in a kitchen''"]
  note video_facts =
    scene_failure_never_aborts_batch
      [of demo_env _ ?scenes 1 scene_a _ "FailedToCreateTask InsufficientCredits" demo_videos_args
          "''https://img/1.png''" "''The robot walks''"]
  note video_submit =
    scene_failure_never_aborts_batch
      [of demo_env _ ?scenes 3 scene_c _ _ demo_videos_args "''https://img/3.png''" "''The robot runs''"]
  have index: "Suc (Suc 0) = 2" "Suc 2 = 3"
    by simp_all
  have image_failed: "fst (images_handle_scene demo_env ?cfg (length ?scenes) 1 scene_a) = Failed"
    using image_facts rejected a by blast
  have video_failed: "fst (videos_handle_scene demo_env demo_videos_args (length ?scenes) 1 scene_a) = Failed"
    using video_facts rejected_video a by blast
  have count: "failed (images_loop demo_env ?cfg (length ?scenes) 1 ?scenes
                         \<lparr>successful = 0, failed = 0, images_log = []\<rparr>) =
     length (filter (\<lambda>(k, r). fst (images_handle_scene demo_env ?cfg (length ?scenes) k r) = Failed)
               (enumerate 1 ?scenes))"
    using image_facts by blast
  have others: "fst (images_handle_scene demo_env ?cfg (length ?scenes) 2 scene_b) = Succeeded"
    "fst (images_handle_scene demo_env ?cfg (length ?scenes) 3 scene_c) = Succeeded"
    by (simp_all add: images_handle_scene_def images_try_scene_def create_generation_task_def
          submit_task_def demo_env_def scene_b_def scene_c_def Let_def)
  have "length (filter (\<lambda>(k, r). fst (images_handle_scene demo_env ?cfg (length ?scenes) k r) = Failed)
               (enumerate 1 ?scenes)) = 1"
    using image_failed others by (simp add: index)
  then have failed_one: "failed (images_loop demo_env ?cfg (length ?scenes) 1 ?scenes
                         \<lparr>successful = 0, failed = 0, images_log = []\<rparr>) = 1"
    using count by (simp only:)
  have image_submitted: "CreateTask (fit_prompt ?cfg ''A robot in a kitchen'') \<in>
     set (images_log (images_loop demo_env ?cfg (length ?scenes) 1 ?scenes
                        \<lparr>successful = 0, failed = 0, images_log = []\<rparr>))"
    using image_submit members b by blast
  have video_submitted: "CreateTask (fit_prompt SORA_2 ''The robot runs'') \<in>
     set (videos_log (videos_loop demo_env demo_videos_args (length ?scenes) 1 ?scenes
                        \<lparr>success_count = 0, fail_count = 0, actual_cost = 0, videos_log = []\<rparr>))"
    using video_submit members c by blast
  show ?thesis
    using rejected image_failed failed_one image_submitted video_failed video_submitted
    by blast
qed

text \<open>
  Claim C2 asks that the successful and the failed count add up to the number of scenes of
  the batch. The image stage does so (\<open>images_batch_accounting\<close>), and the cost is the
  number of successes times the unit cost in both stages. The video stage passes over a
  scene that has no video prompt without counting it: of the three scenes of the example
  one fails, one is passed over and one succeeds, and the summary reports one success and
  one failure.
\<close>

theorem video_summary_misses_skipped_scene:
  "videos_main demo_env demo_videos_args =
     (Returned,
      [StoreRead ''Demo'',
       PrintScene 1 3 ''Scene 1'', CreateTask ''The robot walks'',
       PrintError (FailedToCreateTask InsufficientCredits),
       PrintScene 2 3 ''Scene 2'', PrintSkipped,
       PrintScene 3 3 ''Scene 3'', CreateTask ''The robot runs'', PollTask ''task'',
       StoreUpdate ''recC'' ''scene_video'' ''https://out/result'',
       PrintSummary 1 1 (1 / 2)])"
proof -
  have loaded: "videos_get_scenes_from_airtable (table_all demo_env) (project_name demo_videos_args) =
      Inr [scene_a, scene_b, scene_c]"
    using demo_ready by (simp add: demo_videos_args_def)
  have index: "Suc (Suc 0) = 2" "Suc 2 = 3"
    by simp_all
  have first_scene: "videos_handle_scene demo_env demo_videos_args 3 1 scene_a =
      (Failed, [PrintScene 1 3 ''Scene 1'', CreateTask ''The robot walks'',
                PrintError (FailedToCreateTask InsufficientCredits)])"
    by (simp add: videos_handle_scene_def videos_try_scene_def create_generation_task_def
          fit_prompt_def SORA_2_def submit_task_def demo_env_def scene_a_def scene_label_def
          get_image_url_from_record_def)
  have second_scene: "videos_handle_scene demo_env demo_videos_args 3 2 scene_b =
      (Skipped, [PrintScene 2 3 ''Scene 2'', PrintSkipped])"
    by (simp add: videos_handle_scene_def scene_b_def scene_label_def get_image_url_from_record_def)
  have third_scene: "videos_handle_scene demo_env demo_videos_args 3 3 scene_c =
      (Succeeded, [PrintScene 3 3 ''Scene 3'', CreateTask ''The robot runs'', PollTask ''task'',
                   StoreUpdate ''recC'' ''scene_video'' ''https://out/result''])"
    by (simp add: videos_handle_scene_def videos_try_scene_def create_generation_task_def
          fit_prompt_def SORA_2_def submit_task_def demo_env_def demo_videos_args_def scene_c_def
          scene_label_def get_image_url_from_record_def)
  have "videos_loop demo_env demo_videos_args 3 1 [scene_a, scene_b, scene_c]
          \<lparr>success_count = 0, fail_count = 0, actual_cost = 0, videos_log = [StoreRead ''Demo'']\<rparr> =
        \<lparr>success_count = 1, fail_count = 1, actual_cost = 1 / 2,
         videos_log =
           [StoreRead ''Demo'',
            PrintScene 1 3 ''Scene 1'', CreateTask ''The robot walks'',
            PrintError (FailedToCreateTask InsufficientCredits),
            PrintScene 2 3 ''Scene 2'', PrintSkipped,
            PrintScene 3 3 ''Scene 3'', CreateTask ''The robot runs'', PollTask ''task'',
            StoreUpdate ''recC'' ''scene_video'' ''https://out/result'']\<rparr>"
    using first_scene second_scene third_scene by (simp add: SORA_2_def index)
  moreover have "config_present demo_env" "\<not> test_mode demo_videos_args" "\<not> dry_run demo_videos_args"
    "skip_approval demo_videos_args" "project_name demo_videos_args = ''Demo''"
    by (simp_all add: demo_env_def demo_videos_args_def)
  ultimately show ?thesis
    using loaded
    by (simp add: videos_main_def index del: videos_loop.simps)
qed

end
